theory Spec2Isabelle
  imports Main "HOL-Library.Word" "HOL-Library.Sublist"
begin

section \<open>Values shared by the two scripts\<close>

text \<open>
  Both scripts talk to HTTP servers through the \<open>requests\<close> library and read JSON
  bodies. A decoded JSON document is a Python value; a dict is kept as an association
  list in insertion order, looked up by key. A number is kept as an integer that is zero
  exactly when the number is: the scripts never compute with one, they only pass it on
  or test it for zero.
\<close>

datatype json =
    JNull
  | JBool bool
  | JNum int
  | JStr string
  | JArr "json list"
  | JObj "(string \<times> json) list"

text \<open>Exceptions that the scripts never catch: the interpreter prints a traceback and
  the process ends with a non-zero status.\<close>

datatype exn =
    JSONDecodeError
  | AttributeError
  | IndexError
  | OverflowError
  | ValueError
  | RequestException string

text \<open>What the scripts read of a \<open>requests.Response\<close>: \<open>status_code\<close>, \<open>text\<close>,
  \<open>json()\<close> (\<open>None\<close> when the body does not decode and \<open>json()\<close> raises) and
  \<open>headers\<close>.\<close>

record response =
  status_code :: nat
  body_text :: string
  body_json :: "json option"
  headers :: "(string \<times> string) list"

text \<open>\<open>Response.ok\<close>: \<open>raise_for_status\<close> raises exactly for the codes 400 to 599.\<close>

definition ok :: "response \<Rightarrow> bool" where
  "ok r = (\<not> (400 \<le> status_code r \<and> status_code r < 600))"

text \<open>\<open>s.rstrip(c)\<close> for a single character \<open>c\<close>: every trailing \<open>c\<close> is removed.\<close>

definition rstrip :: "'a \<Rightarrow> 'a list \<Rightarrow> 'a list" where
  "rstrip c s = rev (dropWhile (\<lambda>x. x = c) (rev s))"

text \<open>\<open>d[k] = v\<close> on a dict: an existing key keeps its place and takes the new value, a
  new key goes to the end. \<open>d.update(other)\<close> stores the items of \<open>other\<close> in order.\<close>

fun dict_set :: "'k \<Rightarrow> 'v \<Rightarrow> ('k \<times> 'v) list \<Rightarrow> ('k \<times> 'v) list" where
  "dict_set k v [] = [(k, v)]"
| "dict_set k v (p # ps) = (if fst p = k then (k, v) # ps else p # dict_set k v ps)"

definition dict_update :: "('k \<times> 'v) list \<Rightarrow> ('k \<times> 'v) list \<Rightarrow> ('k \<times> 'v) list" where
  "dict_update d other = fold (\<lambda>(k, v). dict_set k v) other d"

section \<open>alert.py: pushing and resolving alerts\<close>

subsection \<open>Clock and time formatting\<close>

text \<open>A \<open>datetime\<close> in UTC, by its fields down to the second (the microseconds play no
  part in what the scripts format). \<open>datetime.now(timezone.utc)\<close> is an input of the
  model.\<close>

record datetime =
  year :: nat
  month :: nat
  day :: nat
  hour :: nat
  minute :: nat
  second :: nat

definition is_leap :: "nat \<Rightarrow> bool" where
  "is_leap y = (y mod 4 = 0 \<and> (y mod 100 \<noteq> 0 \<or> y mod 400 = 0))"

definition days_in_month :: "nat \<Rightarrow> nat \<Rightarrow> nat" where
  "days_in_month y m =
     (if m = 2 then (if is_leap y then 29 else 28)
      else if m = 4 \<or> m = 6 \<or> m = 9 \<or> m = 11 then 30 else 31)"

definition valid_datetime :: "datetime \<Rightarrow> bool" where
  "valid_datetime d =
     (1 \<le> year d \<and> year d \<le> 9999 \<and> 1 \<le> month d \<and> month d \<le> 12 \<and>
      1 \<le> day d \<and> day d \<le> days_in_month (year d) (month d) \<and>
      hour d < 24 \<and> minute d < 60 \<and> second d < 60)"

text \<open>\<open>d - timedelta(hours=1)\<close>: the same wall clock one hour earlier, borrowing from the
  day, the month and the year. Before 0001-01-01T01:00:00 Python raises OverflowError.\<close>

definition minus_one_hour :: "datetime \<Rightarrow> exn + datetime" where
  "minus_one_hour d =
     (if 1 \<le> hour d then Inr (d\<lparr>hour := hour d - 1\<rparr>)
      else if 1 < day d then Inr (d\<lparr>day := day d - 1, hour := 23\<rparr>)
      else if 1 < month d then
        Inr (d\<lparr>month := month d - 1, day := days_in_month (year d) (month d - 1), hour := 23\<rparr>)
      else if 1 < year d then
        Inr (d\<lparr>year := year d - 1, month := 12, day := 31, hour := 23\<rparr>)
      else Inl OverflowError)"

definition digit :: "nat \<Rightarrow> char" where
  "digit n = ''0123456789'' ! (n mod 10)"

fun show_nat :: "nat \<Rightarrow> string" where
  "show_nat n = (if n < 10 then [digit n] else show_nat (n div 10) @ [digit n])"

definition zero_pad :: "nat \<Rightarrow> nat \<Rightarrow> string" where
  "zero_pad w n = replicate (w - length (show_nat n)) (CHR ''0'') @ show_nat n"

text \<open>The directives of \<open>strftime\<close> that the script uses, each a zero-padded decimal
  number; any other character after \<open>%\<close> is passed through. (For a year below 1000 the C
  library decides whether \<open>%Y\<close> is padded; the theorems below are about later years.)\<close>

definition directive :: "char \<Rightarrow> datetime \<Rightarrow> string" where
  "directive c d =
     (if c = CHR ''Y'' then zero_pad 4 (year d)
      else if c = CHR ''m'' then zero_pad 2 (month d)
      else if c = CHR ''d'' then zero_pad 2 (day d)
      else if c = CHR ''H'' then zero_pad 2 (hour d)
      else if c = CHR ''M'' then zero_pad 2 (minute d)
      else if c = CHR ''S'' then zero_pad 2 (second d)
      else [CHR ''%'', c])"

fun strftime :: "string \<Rightarrow> datetime \<Rightarrow> string" where
  "strftime (c # x # rest) d =
     (if c = CHR ''%'' then directive x d @ strftime rest d else c # strftime (x # rest) d)"
| "strftime [c] d = [c]"
| "strftime [] d = []"

subsection \<open>Command-line arguments and payloads\<close>

text \<open>The parsed arguments that \<open>push\<close> and \<open>resolve\<close> read. \<open>--labels\<close> and
  \<open>--annotations\<close> are \<open>None\<close> when the flag is not given.\<close>

record alert_args =
  url :: string
  key :: string
  secret :: string
  alertname :: string
  severity :: string
  labels :: "string list option"
  annotations :: "string list option"

record alert =
  alert_labels :: "(string \<times> string) list"
  alert_annotations :: "(string \<times> string) list"
  generatorURL :: string
  startsAt :: string
  endsAt :: string

text \<open>The arguments of the one \<open>requests.post\<close> call of \<open>push\<close> and \<open>resolve\<close>.\<close>

record alert_post =
  post_url :: string
  post_json :: "alert list"
  post_auth :: "string \<times> string"
  post_headers :: "(string \<times> string) list"
  post_timeout :: nat

text \<open>\<open>sys.exit(1)\<close> after a message on standard error, or an uncaught exception.\<close>

datatype alert_error =
    InvalidPair string
  | PushFailed nat string
  | ResolveFailed nat string
  | AlertUncaught exn

text \<open>\<open>pair.split("=", 1)\<close> for a pair that contains \<open>=\<close>: the text before the first
  \<open>=\<close> and the text after it.\<close>

definition split_eq :: "string \<Rightarrow> string \<times> string" where
  "split_eq pair =
     (takeWhile (\<lambda>c. c \<noteq> CHR ''='') pair, tl (dropWhile (\<lambda>c. c \<noteq> CHR ''='') pair))"

fun parse_kv_loop ::
  "string list \<Rightarrow> (string \<times> string) list \<Rightarrow> alert_error + (string \<times> string) list" where
  "parse_kv_loop [] result = Inr result"
| "parse_kv_loop (pair # pairs) result =
     (if CHR ''='' \<notin> set pair then Inl (InvalidPair pair)
      else case split_eq pair of (k, v) \<Rightarrow> parse_kv_loop pairs (dict_set k v result))"

definition parse_kv :: "string list option \<Rightarrow> alert_error + (string \<times> string) list" where
  "parse_kv pairs = parse_kv_loop (case pairs of None \<Rightarrow> [] | Some ps \<Rightarrow> ps) []"

definition time_format :: string where
  "time_format = ''%Y-%m-%dT%H:%M:%SZ''"

definition base_labels :: "alert_args \<Rightarrow> (string \<times> string) list" where
  "base_labels args =
     [(''alertname'', alertname args), (''severity'', severity args), (''system_key'', key args)]"

definition alerts_url :: "alert_args \<Rightarrow> string" where
  "alerts_url args = rstrip (CHR ''/'') (url args) @ ''/alertmanager/api/v2/alerts''"

text \<open>\<open>push_alert\<close> up to its \<open>requests.post\<close> call: the request it sends, or the error
  that ends the process before anything is sent.\<close>

definition push_request :: "alert_args \<Rightarrow> datetime \<Rightarrow> alert_error + alert_post" where
  "push_request args now =
     (case parse_kv (labels args) of
        Inl e \<Rightarrow> Inl e
      | Inr extra \<Rightarrow>
     (case parse_kv (annotations args) of
        Inl e \<Rightarrow> Inl e
      | Inr anns \<Rightarrow>
          Inr \<lparr>post_url = alerts_url args,
               post_json =
                 [\<lparr>alert_labels = dict_update (base_labels args) extra,
                   alert_annotations = anns,
                   generatorURL = ''http://'' @ key args @ ''/alert'',
                   startsAt = strftime time_format now,
                   endsAt = ''0001-01-01T00:00:00Z''\<rparr>],
               post_auth = (key args, secret args),
               post_headers = [(''Accept'', ''application/json'')],
               post_timeout = 30\<rparr>))"

text \<open>\<open>push_alert\<close>: the outcome (the status code of the success message, or the
  error) and the requests sent. \<open>send\<close> is \<open>requests.post\<close> with the network behind it.\<close>

definition push_alert ::
  "(alert_post \<Rightarrow> exn + response) \<Rightarrow> alert_args \<Rightarrow> datetime \<Rightarrow> (alert_error + nat) \<times> alert_post list"
  where
  "push_alert send args now =
     (case push_request args now of
        Inl e \<Rightarrow> (Inl e, [])
      | Inr req \<Rightarrow>
     (case send req of
        Inl x \<Rightarrow> (Inl (AlertUncaught x), [req])
      | Inr resp \<Rightarrow>
          if ok resp then (Inr (status_code resp), [req])
          else (Inl (PushFailed (status_code resp) (body_text resp)), [req])))"

text \<open>\<open>resolve_alert\<close> in the same two parts. The clock is read once.\<close>

definition resolve_request :: "alert_args \<Rightarrow> datetime \<Rightarrow> alert_error + alert_post" where
  "resolve_request args now =
     (case parse_kv (labels args) of
        Inl e \<Rightarrow> Inl e
      | Inr extra \<Rightarrow>
     (case minus_one_hour now of
        Inl x \<Rightarrow> Inl (AlertUncaught x)
      | Inr earlier \<Rightarrow>
          Inr \<lparr>post_url = alerts_url args,
               post_json =
                 [\<lparr>alert_labels = dict_update (base_labels args) extra,
                   alert_annotations = [(''summary'', ''resolved'')],
                   generatorURL = ''http://'' @ key args @ ''/alert'',
                   startsAt = strftime time_format earlier,
                   endsAt = strftime time_format now\<rparr>],
               post_auth = (key args, secret args),
               post_headers = [(''Accept'', ''application/json'')],
               post_timeout = 30\<rparr>))"

definition resolve_alert ::
  "(alert_post \<Rightarrow> exn + response) \<Rightarrow> alert_args \<Rightarrow> datetime \<Rightarrow> (alert_error + nat) \<times> alert_post list"
  where
  "resolve_alert send args now =
     (case resolve_request args now of
        Inl e \<Rightarrow> (Inl e, [])
      | Inr req \<Rightarrow>
     (case send req of
        Inl x \<Rightarrow> (Inl (AlertUncaught x), [req])
      | Inr resp \<Rightarrow>
          if ok resp then (Inr (status_code resp), [req])
          else (Inl (ResolveFailed (status_code resp) (body_text resp)), [req])))"

section \<open>alerting_config.py: the login flow\<close>

subsection \<open>PKCE parameters\<close>

text \<open>
  \<open>_logto_login\<close> draws its verifier and state with \<open>secrets.token_urlsafe\<close> and hashes the
  verifier with \<open>hashlib.sha256\<close>. The operating system's random bytes are an input of the
  model: \<open>urandom i\<close> is the \<open>i\<close>-th byte it hands out during the call. The digest is an
  input too (\<open>sha256_of\<close>, from bytes to bytes). Base64 is modelled as the standard library
  computes it: three bytes give four characters of the alphabet, a last group of one or
  two bytes is padded with \<open>=\<close>.
\<close>

type_synonym byte = "8 word"

definition b64_alphabet :: string where
  "b64_alphabet = ''ABCDEFGHIJKLMNOPQRSTUVWXYZabcdefghijklmnopqrstuvwxyz0123456789+/''"

text \<open>The four six-bit groups of three bytes \<open>a\<close>, \<open>b\<close>, \<open>c\<close>, as numbers below 64.\<close>

definition sextet1 :: "byte \<Rightarrow> nat" where
  "sextet1 a = unat a div 4"

definition sextet2 :: "byte \<Rightarrow> byte \<Rightarrow> nat" where
  "sextet2 a b = (unat a mod 4) * 16 + unat b div 16"

definition sextet3 :: "byte \<Rightarrow> byte \<Rightarrow> nat" where
  "sextet3 b c = (unat b mod 16) * 4 + unat c div 64"

definition sextet4 :: "byte \<Rightarrow> nat" where
  "sextet4 c = unat c mod 64"

fun b64encode :: "byte list \<Rightarrow> string" where
  "b64encode (a # b # c # rest) =
     [b64_alphabet ! sextet1 a, b64_alphabet ! sextet2 a b,
      b64_alphabet ! sextet3 b c, b64_alphabet ! sextet4 c] @ b64encode rest"
| "b64encode [a, b] =
     [b64_alphabet ! sextet1 a, b64_alphabet ! sextet2 a b, b64_alphabet ! sextet3 b 0, CHR ''='']"
| "b64encode [a] =
     [b64_alphabet ! sextet1 a, b64_alphabet ! sextet2 a 0, CHR ''='', CHR ''='']"
| "b64encode [] = []"

text \<open>\<open>base64.urlsafe_b64encode\<close>: the standard encoding with \<open>+\<close> and \<open>/\<close> replaced by
  \<open>-\<close> and \<open>_\<close>. Its result is ASCII, so \<open>.decode()\<close> leaves the characters as they are.\<close>

definition urlsafe_translate :: "char \<Rightarrow> char" where
  "urlsafe_translate c = (if c = CHR ''+'' then CHR ''-'' else if c = CHR ''/'' then CHR ''_'' else c)"

definition urlsafe_b64encode :: "byte list \<Rightarrow> string" where
  "urlsafe_b64encode s = map urlsafe_translate (b64encode s)"

text \<open>\<open>secrets.token_bytes(nbytes)\<close> takes the next \<open>nbytes\<close> random bytes, here those from
  position \<open>pos\<close> on; \<open>secrets.token_urlsafe(nbytes)\<close> is
  \<open>urlsafe_b64encode(token_bytes(nbytes)).rstrip(b'=').decode('ascii')\<close>.\<close>

definition token_bytes :: "(nat \<Rightarrow> byte) \<Rightarrow> nat \<Rightarrow> nat \<Rightarrow> byte list" where
  "token_bytes urandom pos nbytes = map urandom [pos..<pos + nbytes]"

definition token_urlsafe :: "(nat \<Rightarrow> byte) \<Rightarrow> nat \<Rightarrow> nat \<Rightarrow> string" where
  "token_urlsafe urandom pos nbytes =
     rstrip (CHR ''='') (urlsafe_b64encode (token_bytes urandom pos nbytes))"

text \<open>\<open>s.encode()\<close> of an ASCII string: one byte for each character.\<close>

definition str_encode :: "string \<Rightarrow> byte list" where
  "str_encode s = map of_char s"

record pkce =
  code_verifier :: string
  code_challenge :: string
  state :: string

text \<open>The \<open>PKCE setup\<close> lines of \<open>_logto_login\<close>: 64 random bytes for the verifier, then 16
  for the state.\<close>

definition pkce_setup :: "(byte list \<Rightarrow> byte list) \<Rightarrow> (nat \<Rightarrow> byte) \<Rightarrow> pkce" where
  "pkce_setup sha256_of urandom =
     (let verifier = token_urlsafe urandom 0 64 in
        \<lparr>code_verifier = verifier,
         code_challenge = rstrip (CHR ''='') (urlsafe_b64encode (sha256_of (str_encode verifier))),
         state = token_urlsafe urandom 64 16\<rparr>)"

subsection \<open>HTTP calls\<close>

text \<open>
  A call of the \<open>requests\<close> library, by the arguments the script gives it. \<open>ViaSession\<close> is
  a call on the one \<open>requests.Session\<close> object that \<open>_logto_login\<close> creates (so it sends
  and stores that session's cookies); \<open>Direct\<close> is a call of \<open>requests.post\<close>, outside
  any session. The URL is a Python value, since the script passes on whatever JSON value
  the server named as \<open>redirectTo\<close>. \<open>call_timeout\<close> is \<open>None\<close> when no \<open>timeout\<close>
  argument is given: the library then waits without limit.
\<close>

datatype http_method = GET | PUT | PATCH | POST

datatype client = ViaSession | Direct

datatype payload = NoBody | JsonBody json | FormData "(string \<times> string) list"

record http_call =
  call_client :: client
  call_method :: http_method
  call_url :: json
  call_params :: "(string \<times> string) list"
  call_payload :: payload
  call_headers :: "(string \<times> string) list"
  allow_redirects :: bool
  call_timeout :: "nat option"

text \<open>How a run of \<open>_logto_login\<close> ends when it does not return: one constructor for each
  message the script prints before \<open>sys.exit(1)\<close>, with the values it prints, and
  \<open>Uncaught\<close> for an exception that nothing catches.\<close>

datatype login_error =
    AuthenticationFailed json
  | AuthenticationError nat string
  | UnexpectedSignInResponse string
  | NoAuthorizationCode string
  | LogtoTokenFailed string
  | TokenExchangeFailed string
  | Uncaught exn

text \<open>
  The servers and the network: what the library returns for the last call of a history
  of calls, a response or an exception (connection error, timeout, invalid URL). A
  deterministic world is such a function, and the theorems hold for every one.
\<close>

type_synonym http_env = "http_call list \<Rightarrow> exn + response"

text \<open>A step of the script takes the calls made so far and returns its result, or the
  error that ends the run, with the calls made so far.\<close>

type_synonym 'a step = "http_call list \<Rightarrow> (login_error + 'a) \<times> http_call list"

definition LOGTO_ENDPOINT :: string where
  "LOGTO_ENDPOINT = ''https://qa.id.nethesis.it''"

definition LOGTO_APP_ID :: string where
  "LOGTO_APP_ID = ''amz2744kof0iq3a6i7csu''"

definition LOGTO_REDIRECT_URI_PATH :: string where
  "LOGTO_REDIRECT_URI_PATH = ''login-redirect''"

text \<open>Python's truth value of a decoded JSON value, as \<open>if not x\<close> reads it.\<close>

fun truthy :: "json \<Rightarrow> bool" where
  "truthy JNull = False"
| "truthy (JBool b) = b"
| "truthy (JNum n) = (n \<noteq> 0)"
| "truthy (JStr s) = (s \<noteq> [])"
| "truthy (JArr xs) = (xs \<noteq> [])"
| "truthy (JObj kvs) = (kvs \<noteq> [])"

text \<open>\<open>v.get(k, dflt)\<close>: only a dict has \<open>get\<close>; on any other value Python raises
  AttributeError.\<close>

fun json_get :: "json \<Rightarrow> string \<Rightarrow> json \<Rightarrow> exn + json" where
  "json_get (JObj kvs) k dflt = Inr (case map_of kvs k of None \<Rightarrow> dflt | Some v \<Rightarrow> v)"
| "json_get _ k dflt = Inl AttributeError"

definition response_json :: "response \<Rightarrow> exn + json" where
  "response_json r = (case body_json r of None \<Rightarrow> Inl JSONDecodeError | Some j \<Rightarrow> Inr j)"

text \<open>\<open>r.json().get(k, dflt)\<close> and \<open>r.json().get("data", {}).get("token")\<close>.\<close>

definition read_field :: "response \<Rightarrow> string \<Rightarrow> json \<Rightarrow> exn + json" where
  "read_field r k dflt =
     (case response_json r of Inl x \<Rightarrow> Inl x | Inr j \<Rightarrow> json_get j k dflt)"

definition read_token :: "response \<Rightarrow> exn + json" where
  "read_token r =
     (case read_field r ''data'' (JObj []) of Inl x \<Rightarrow> Inl x | Inr d \<Rightarrow> json_get d ''token'' JNull)"

text \<open>\<open>r.headers.get(name, dflt)\<close>. The library compares header names without regard
  to case; the list holds each header under the spelling the script asks for. In the
  consent branch \<open>r5.headers['Location']\<close> is the same value: the branch is only entered
  when the header is there.\<close>

definition header_get :: "response \<Rightarrow> string \<Rightarrow> string \<Rightarrow> string" where
  "header_get r name dflt = (case map_of (headers r) name of None \<Rightarrow> dflt | Some v \<Rightarrow> v)"

text \<open>\<open>sub in s\<close> for strings.\<close>

fun contains :: "string \<Rightarrow> string \<Rightarrow> bool" where
  "contains sub [] = (sub = [])"
| "contains sub (c # cs) = (prefix sub (c # cs) \<or> contains sub cs)"

text \<open>\<open>qs.get("code", [None])[0]\<close> for the dict \<open>qs\<close> that \<open>parse_qs\<close> returns (a list of
  values for each name).\<close>

definition first_code :: "(string \<times> string list) list \<Rightarrow> exn + string option" where
  "first_code qs =
     (case map_of qs ''code'' of
        None \<Rightarrow> Inr None
      | Some [] \<Rightarrow> Inl IndexError
      | Some (c # cs) \<Rightarrow> Inr (Some c))"

text \<open>The calls of \<open>_logto_login\<close>, in the order of the source. A call on the session
  has the library's defaults where the script gives no argument.\<close>

definition session_call :: "http_method \<Rightarrow> json \<Rightarrow> http_call" where
  "session_call m u =
     \<lparr>call_client = ViaSession, call_method = m, call_url = u, call_params = [],
      call_payload = NoBody, call_headers = [], allow_redirects = True, call_timeout = None\<rparr>"

definition auth_call :: "string \<Rightarrow> pkce \<Rightarrow> http_call" where
  "auth_call redirect_uri p =
     (session_call GET (JStr (LOGTO_ENDPOINT @ ''/oidc/auth'')))
       \<lparr>call_params :=
          [(''client_id'', LOGTO_APP_ID),
           (''redirect_uri'', redirect_uri),
           (''response_type'', ''code''),
           (''scope'', ''openid profile email offline_access '' @
              ''urn:logto:scope:organizations urn:logto:scope:organization_roles''),
           (''state'', state p),
           (''code_challenge'', code_challenge p),
           (''code_challenge_method'', ''S256'')],
        allow_redirects := False\<rparr>"

definition sign_in_call :: http_call where
  "sign_in_call =
     (session_call PUT (JStr (LOGTO_ENDPOINT @ ''/api/interaction'')))
       \<lparr>call_payload := JsonBody (JObj [(''event'', JStr ''SignIn'')])\<rparr>"

definition identifiers_call :: "string \<Rightarrow> string \<Rightarrow> http_call" where
  "identifiers_call email password =
     (session_call PATCH (JStr (LOGTO_ENDPOINT @ ''/api/interaction/identifiers'')))
       \<lparr>call_payload := JsonBody (JObj [(''email'', JStr email), (''password'', JStr password)])\<rparr>"

definition submit_call :: http_call where
  "submit_call = session_call POST (JStr (LOGTO_ENDPOINT @ ''/api/interaction/submit''))"

definition redirect_call :: "json \<Rightarrow> http_call" where
  "redirect_call redirect_to = (session_call GET redirect_to)\<lparr>allow_redirects := False\<rparr>"

definition consent_page_call :: "string \<Rightarrow> http_call" where
  "consent_page_call location =
     (session_call GET (JStr (LOGTO_ENDPOINT @ location)))\<lparr>allow_redirects := False\<rparr>"

definition consent_call :: http_call where
  "consent_call = session_call POST (JStr (LOGTO_ENDPOINT @ ''/api/interaction/consent''))"

definition token_call :: "string \<Rightarrow> string \<Rightarrow> string \<Rightarrow> http_call" where
  "token_call code redirect_uri verifier =
     \<lparr>call_client = Direct, call_method = POST,
      call_url = JStr (LOGTO_ENDPOINT @ ''/oidc/token''), call_params = [],
      call_payload =
        FormData [(''grant_type'', ''authorization_code''),
                  (''code'', code),
                  (''redirect_uri'', redirect_uri),
                  (''client_id'', LOGTO_APP_ID),
                  (''code_verifier'', verifier)],
      call_headers = [], allow_redirects = True, call_timeout = None\<rparr>"

definition exchange_call :: "string \<Rightarrow> json \<Rightarrow> http_call" where
  "exchange_call backend_url logto_token =
     \<lparr>call_client = Direct, call_method = POST,
      call_url = JStr (backend_url @ ''/auth/exchange''), call_params = [],
      call_payload = JsonBody (JObj [(''access_token'', logto_token)]),
      call_headers = [(''Content-Type'', ''application/json'')],
      allow_redirects = True, call_timeout = None\<rparr>"

subsection \<open>The steps of \<open>_logto_login\<close>\<close>

text \<open>Making a call appends it to the calls made; an exception of the library ends the
  run. \<open>and_then\<close> runs the next statements only when the ones before returned.\<close>

definition http_request :: "http_env \<Rightarrow> http_call \<Rightarrow> response step" where
  "http_request env c tr =
     (case env (tr @ [c]) of
        Inl x \<Rightarrow> (Inl (Uncaught x), tr @ [c])
      | Inr r \<Rightarrow> (Inr r, tr @ [c]))"

definition and_then :: "'a step \<Rightarrow> ('a \<Rightarrow> 'b step) \<Rightarrow> 'b step" where
  "and_then m f tr = (case m tr of (Inl e, tr') \<Rightarrow> (Inl e, tr') | (Inr x, tr') \<Rightarrow> f x tr')"

definition succeed :: "'a \<Rightarrow> 'a step" where
  "succeed x tr = (Inr x, tr)"

definition fail :: "login_error \<Rightarrow> 'a step" where
  "fail e tr = (Inl e, tr)"

definition evaluate :: "exn + 'a \<Rightarrow> 'a step" where
  "evaluate v = (case v of Inl x \<Rightarrow> fail (Uncaught x) | Inr a \<Rightarrow> succeed a)"

text \<open>Step 1: start the OIDC authorization flow. The response is not read.\<close>

definition step1_authorize :: "http_env \<Rightarrow> string \<Rightarrow> pkce \<Rightarrow> unit step" where
  "step1_authorize env redirect_uri p =
     and_then (http_request env (auth_call redirect_uri p)) (\<lambda>_. succeed ())"

text \<open>Step 2: sign in with email and password. The message of the 422 branch is
  \<open>r.json().get('message', r.text)\<close>, evaluated before anything is printed.\<close>

definition step2_sign_in :: "http_env \<Rightarrow> string \<Rightarrow> string \<Rightarrow> unit step" where
  "step2_sign_in env email password =
     and_then (http_request env sign_in_call) (\<lambda>_.
     and_then (http_request env (identifiers_call email password)) (\<lambda>r.
       if status_code r = 422 then
         and_then (evaluate (read_field r ''message'' (JStr (body_text r)))) (\<lambda>message.
           fail (AuthenticationFailed message))
       else if \<not> ok r then fail (AuthenticationError (status_code r) (body_text r))
       else succeed ()))"

text \<open>Step 3: submit the sign-in and read \<open>redirectTo\<close>.\<close>

definition step3_submit :: "http_env \<Rightarrow> json step" where
  "step3_submit env =
     and_then (http_request env submit_call) (\<lambda>r4.
     and_then (evaluate (read_field r4 ''redirectTo'' JNull)) (\<lambda>redirect_to.
       if \<not> truthy redirect_to then fail (UnexpectedSignInResponse (body_text r4))
       else succeed redirect_to))"

text \<open>Step 4: the optional consent screen. The step returns the redirect target in force
  after it: the one it was given, or the consent response's \<open>redirectTo\<close> (which is not
  checked).\<close>

definition step4_consent :: "http_env \<Rightarrow> json \<Rightarrow> json step" where
  "step4_consent env redirect_to =
     and_then (http_request env (redirect_call redirect_to)) (\<lambda>r5.
       if contains ''consent'' (header_get r5 ''Location'' []) then
         and_then (http_request env (consent_page_call (header_get r5 ''Location'' []))) (\<lambda>_.
         and_then (http_request env consent_call) (\<lambda>r_consent.
           evaluate (read_field r_consent ''redirectTo'' JNull)))
       else succeed redirect_to)"

text \<open>Step 5: follow the final redirect and take the code from its \<open>Location\<close>.
  \<open>parse_query\<close> stands for \<open>parse_qs(urlparse(url).query)\<close> of the standard library:
  the dict of the query's parameters, or the ValueError that \<open>urlparse\<close> raises on a
  string it does not accept as a URL (an unmatched bracket in the host, for one).\<close>

definition step5_code ::
  "http_env \<Rightarrow> (string \<Rightarrow> exn + (string \<times> string list) list) \<Rightarrow> json \<Rightarrow> string step" where
  "step5_code env parse_query redirect_to =
     and_then (http_request env (redirect_call redirect_to)) (\<lambda>r_final.
       let callback_url = header_get r_final ''Location'' [] in
       and_then (evaluate (parse_query callback_url)) (\<lambda>qs.
       and_then (evaluate (first_code qs)) (\<lambda>code.
         case code of
           None \<Rightarrow> fail (NoAuthorizationCode callback_url)
         | Some c \<Rightarrow> if c = [] then fail (NoAuthorizationCode callback_url) else succeed c)))"

text \<open>Step 6: exchange the code for the provider's access token.\<close>

definition step6_token :: "http_env \<Rightarrow> string \<Rightarrow> string \<Rightarrow> string \<Rightarrow> json step" where
  "step6_token env redirect_uri verifier code =
     and_then (http_request env (token_call code redirect_uri verifier)) (\<lambda>r6.
     and_then (evaluate (read_field r6 ''access_token'' JNull)) (\<lambda>logto_token.
       if \<not> truthy logto_token then fail (LogtoTokenFailed (body_text r6))
       else succeed logto_token))"

text \<open>Step 7: exchange the provider's token for the backend's token.\<close>

definition step7_exchange :: "http_env \<Rightarrow> string \<Rightarrow> json \<Rightarrow> json step" where
  "step7_exchange env backend_url logto_token =
     and_then (http_request env (exchange_call backend_url logto_token)) (\<lambda>r7.
     and_then (evaluate (read_token r7)) (\<lambda>token.
       if \<not> truthy token then fail (TokenExchangeFailed (body_text r7))
       else succeed token))"

definition redirect_uri_of :: "string \<Rightarrow> string" where
  "redirect_uri_of base_url = rstrip (CHR ''/'') base_url @ ''/'' @ LOGTO_REDIRECT_URI_PATH"

definition backend_url_of :: "string \<Rightarrow> string" where
  "backend_url_of base_url = rstrip (CHR ''/'') base_url @ ''/backend/api''"

text \<open>\<open>_logto_login\<close>: what it returns or how it ends, and the calls it made, in order.\<close>

definition logto_login ::
  "http_env \<Rightarrow> (string \<Rightarrow> exn + (string \<times> string list) list) \<Rightarrow>
     (byte list \<Rightarrow> byte list) \<Rightarrow> (nat \<Rightarrow> byte) \<Rightarrow> string \<Rightarrow> string \<Rightarrow> string \<Rightarrow>
     (login_error + json) \<times> http_call list" where
  "logto_login env parse_query sha256_of urandom base_url email password =
     (let redirect_uri = redirect_uri_of base_url;
          backend_url = backend_url_of base_url;
          p = pkce_setup sha256_of urandom
      in
        (and_then (step1_authorize env redirect_uri p) (\<lambda>_.
         and_then (step2_sign_in env email password) (\<lambda>_.
         and_then (step3_submit env) (\<lambda>redirect_to.
         and_then (step4_consent env redirect_to) (\<lambda>redirect_to.
         and_then (step5_code env parse_query redirect_to) (\<lambda>code.
         and_then (step6_token env redirect_uri (code_verifier p) code) (\<lambda>logto_token.
         step7_exchange env backend_url logto_token))))))) [])"

section \<open>What the specification says\<close>

text \<open>The format \<open>YYYY-MM-DDTHH:MM:SSZ\<close> written out, digit by digit.\<close>

definition two_digits :: "nat \<Rightarrow> string" where
  "two_digits n = [digit (n div 10), digit n]"

definition four_digits :: "nat \<Rightarrow> string" where
  "four_digits n = [digit (n div 1000), digit (n div 100), digit (n div 10), digit n]"

definition iso_utc :: "datetime \<Rightarrow> string" where
  "iso_utc d =
     four_digits (year d) @ ''-'' @ two_digits (month d) @ ''-'' @ two_digits (day d) @ ''T'' @
     two_digits (hour d) @ '':'' @ two_digits (minute d) @ '':'' @ two_digits (second d) @ ''Z''"

text \<open>The instant a valid \<open>datetime\<close> names, in seconds since 0001-01-01T00:00:00 of
  the proleptic Gregorian calendar; \<open>days_before_year\<close> is the day count of Python's
  \<open>_days_before_year\<close>.\<close>

definition days_before_year :: "nat \<Rightarrow> nat" where
  "days_before_year y = (y - 1) * 365 + (y - 1) div 4 - (y - 1) div 100 + (y - 1) div 400"

definition days_before_month :: "nat \<Rightarrow> nat \<Rightarrow> nat" where
  "days_before_month y m = sum_list (map (days_in_month y) [1..<m])"

definition instant :: "datetime \<Rightarrow> nat" where
  "instant d =
     (days_before_year (year d) + days_before_month (year d) (month d) + (day d - 1)) * 86400
       + hour d * 3600 + minute d * 60 + second d"

text \<open>The \<open>--labels\<close> strings as given on the command line.\<close>

definition label_pairs :: "alert_args \<Rightarrow> string list" where
  "label_pairs args = (case labels args of None \<Rightarrow> [] | Some ps \<Rightarrow> ps)"

text \<open>Base64url without padding, as RFC 4648 writes it: the URL-safe alphabet, four
  characters for three bytes, and two or three characters for a last group of one or two
  bytes.\<close>

definition b64url_alphabet :: string where
  "b64url_alphabet = ''ABCDEFGHIJKLMNOPQRSTUVWXYZabcdefghijklmnopqrstuvwxyz0123456789-_''"

fun b64url_nopad :: "byte list \<Rightarrow> string" where
  "b64url_nopad (a # b # c # rest) =
     [b64url_alphabet ! sextet1 a, b64url_alphabet ! sextet2 a b,
      b64url_alphabet ! sextet3 b c, b64url_alphabet ! sextet4 c] @ b64url_nopad rest"
| "b64url_nopad [a, b] =
     [b64url_alphabet ! sextet1 a, b64url_alphabet ! sextet2 a b, b64url_alphabet ! sextet3 b 0]"
| "b64url_nopad [a] = [b64url_alphabet ! sextet1 a, b64url_alphabet ! sextet2 a 0]"
| "b64url_nopad [] = []"

text \<open>The URL-safe characters: letters, digits, \<open>-\<close> and \<open>_\<close>.\<close>

definition urlsafe_char :: "char \<Rightarrow> bool" where
  "urlsafe_char c = (c \<in> set b64url_alphabet)"

text \<open>No call of a list names a timeout.\<close>

definition no_timeout :: "http_call list \<Rightarrow> bool" where
  "no_timeout tr = list_all (\<lambda>c. call_timeout c = None) tr"

section \<open>Example inputs\<close>

definition example_args :: alert_args where
  "example_args =
     \<lparr>url = ''https://my.example/mimir/'', key = ''NOC-1'', secret = ''s'',
      alertname = ''HighCPU'', severity = ''critical'',
      labels = Some [''host=server-01'', ''severity=warning''],
      annotations = Some [''summary=CPU too high'']\<rparr>"

definition example_now :: datetime where
  "example_now = \<lparr>year = 2024, month = 3, day = 1, hour = 0, minute = 30, second = 5\<rparr>"

definition example_send :: "alert_post \<Rightarrow> exn + response" where
  "example_send req = Inr \<lparr>status_code = 200, body_text = [], body_json = None, headers = []\<rparr>"

text \<open>A server that answers the \<open>n\<close>-th call of a run with the \<open>n\<close>-th response of a
  list, and refuses the connection once the list is used up.\<close>

definition scripted :: "response list \<Rightarrow> http_env" where
  "scripted rs tr =
     (if 0 < length tr \<and> length tr \<le> length rs then Inr (rs ! (length tr - 1))
      else Inl (RequestException ''ConnectionError''))"

text \<open>Responses for the examples. The raw text of a JSON body is abridged (the model
  only prints it).\<close>

definition json_response :: "nat \<Rightarrow> string \<Rightarrow> json \<Rightarrow> response" where
  "json_response code raw j =
     \<lparr>status_code = code, body_text = raw, body_json = Some j, headers = []\<rparr>"

definition plain_response :: "nat \<Rightarrow> string \<Rightarrow> response" where
  "plain_response code raw = \<lparr>status_code = code, body_text = raw, body_json = None, headers = []\<rparr>"

definition redirect_response :: "string \<Rightarrow> response" where
  "redirect_response location =
     \<lparr>status_code = 302, body_text = [], body_json = None, headers = [(''Location'', location)]\<rparr>"

text \<open>A stand-in for \<open>parse_qs(urlparse(url).query)\<close> that knows the callback URLs of the
  examples, with the standard library's result for each: the last one has an opening
  bracket in its host and no closing one, and \<open>urlparse\<close> raises
  \<open>ValueError: Invalid IPv6 URL\<close> on it.\<close>

definition example_parse_query :: "string \<Rightarrow> exn + (string \<times> string list) list" where
  "example_parse_query u =
     (if u = ''https://my.example/login-redirect?code=abc&state=xyz''
      then Inr [(''code'', [''abc'']), (''state'', [''xyz''])]
      else if u = ''https://my.example/login-redirect?error=access_denied''
      then Inr [(''error'', [''access_denied''])]
      else if u = ''https://[my.example/login-redirect?error=access_denied''
      then Inl ValueError
      else Inr [])"

definition responses_to_submit :: "response list" where
  "responses_to_submit =
     [redirect_response ''/sign-in'',
      plain_response 204 [],
      plain_response 204 [],
      json_response 200 ''{redirectTo: https://qa.id.nethesis.it/oidc/auth/abc}''
        (JObj [(''redirectTo'', JStr ''https://qa.id.nethesis.it/oidc/auth/abc'')])]"

definition responses_from_final :: "response list" where
  "responses_from_final =
     [redirect_response ''https://my.example/login-redirect?code=abc&state=xyz'',
      json_response 200 ''{access_token: logto-token}'' (JObj [(''access_token'', JStr ''logto-token'')]),
      json_response 200 ''{data: {token: backend-jwt}}''
        (JObj [(''data'', JObj [(''token'', JStr ''backend-jwt'')])])]"

definition example_responses :: "response list" where
  "example_responses =
     responses_to_submit @ [redirect_response ''/callback''] @ responses_from_final"

definition example_responses_consent :: "response list" where
  "example_responses_consent =
     responses_to_submit @
     [redirect_response ''/consent'',
      plain_response 200 ''<html>consent</html>'',
      json_response 200 ''{redirectTo: https://qa.id.nethesis.it/oidc/auth/def}''
        (JObj [(''redirectTo'', JStr ''https://qa.id.nethesis.it/oidc/auth/def'')])] @
     responses_from_final"

definition responses_no_code :: "response list" where
  "responses_no_code =
     responses_to_submit @
     [redirect_response ''/callback'',
      redirect_response ''https://my.example/login-redirect?error=access_denied'']"

definition responses_bad_location :: "response list" where
  "responses_bad_location =
     responses_to_submit @
     [redirect_response ''/callback'',
      redirect_response ''https://[my.example/login-redirect?error=access_denied'']"

definition responses_no_redirect :: "response list" where
  "responses_no_redirect = take 3 responses_to_submit @ [json_response 200 ''{}'' (JObj [])]"

definition responses_submit_html :: "response list" where
  "responses_submit_html =
     take 3 responses_to_submit @ [plain_response 200 ''<html>Sign in</html>'']"

definition responses_422_json :: "response list" where
  "responses_422_json =
     take 2 responses_to_submit @
     [json_response 422 ''{code: session.invalid_credentials, message: Incorrect account or password.}''
        (JObj [(''code'', JStr ''session.invalid_credentials''),
               (''message'', JStr ''Incorrect account or password.'')])]"

definition responses_422_html :: "response list" where
  "responses_422_html =
     take 2 responses_to_submit @ [plain_response 422 ''<html>Unprocessable Entity</html>'']"

text \<open>Stand-ins for the random source and the digest; the example runs do not
  depend on what they return.\<close>

definition example_urandom :: "nat \<Rightarrow> byte" where
  "example_urandom i = of_nat (7 * i)"

definition example_digest :: "byte list \<Rightarrow> byte list" where
  "example_digest bs = take 32 (bs @ replicate 32 0)"

definition example_base_url :: string where
  "example_base_url = ''https://my.example/''"

definition example_auth_call :: http_call where
  "example_auth_call =
     auth_call (redirect_uri_of example_base_url) (pkce_setup example_digest example_urandom)"

definition example_identifiers_call :: http_call where
  "example_identifiers_call = identifiers_call ''admin@example.com'' ''s3cr3t''"

definition example_token_call :: http_call where
  "example_token_call =
     token_call ''abc'' (redirect_uri_of example_base_url)
       (code_verifier (pkce_setup example_digest example_urandom))"

definition example_exchange_call :: http_call where
  "example_exchange_call = exchange_call (backend_url_of example_base_url) (JStr ''logto-token'')"

definition run_example :: "response list \<Rightarrow> (login_error + json) \<times> http_call list" where
  "run_example rs =
     logto_login (scripted rs) example_parse_query example_digest example_urandom
       example_base_url ''admin@example.com'' ''s3cr3t''"

section \<open>Properties of alert.py\<close>

subsection \<open>Dicts and key=value pairs\<close>

lemma map_of_dict_set: "map_of (dict_set k v d) = (map_of d)(k \<mapsto> v)"
  by (induction d) (auto simp: fun_eq_iff)

lemma map_of_dict_update: "map_of (dict_update d other) = map_of d ++ map_of (rev other)"
  unfolding dict_update_def
  by (induction other arbitrary: d) (auto simp: map_of_dict_set fun_eq_iff map_add_def split: option.splits)

lemma parse_kv_loop_map_of:
  "parse_kv_loop ps d = Inr r \<Longrightarrow> map_of r = map_of d ++ map_of (rev (map split_eq ps))"
proof (induction ps arbitrary: d)
  case Nil
  then show ?case by simp
next
  case (Cons p ps)
  obtain k v where kv: "split_eq p = (k, v)" by (cases "split_eq p")
  from Cons.prems have "parse_kv_loop ps (dict_set k v d) = Inr r"
    by (simp add: kv split: if_splits)
  then have "map_of r = map_of (dict_set k v d) ++ map_of (rev (map split_eq ps))"
    by (rule Cons.IH)
  then show ?case
    by (auto simp: kv map_of_dict_set fun_eq_iff map_add_def split: option.splits)
qed

lemma parse_kv_loop_total:
  "\<forall>p \<in> set ps. CHR ''='' \<in> set p \<Longrightarrow> \<exists>r. parse_kv_loop ps d = Inr r"
  by (induction ps arbitrary: d) (auto split: prod.splits)

lemma parse_kv_loop_fails:
  "parse_kv_loop ps d = Inl e \<Longrightarrow> \<exists>p \<in> set ps. CHR ''='' \<notin> set p \<and> e = InvalidPair p"
  by (induction ps arbitrary: d) (auto split: prod.splits if_splits)

subsection \<open>Formatting and the calendar\<close>

lemma show_nat_lt10: "n < 10 \<Longrightarrow> show_nat n = [digit n]"
  by simp

lemma show_nat_ge10: "10 \<le> n \<Longrightarrow> show_nat n = show_nat (n div 10) @ [digit n]"
  by (subst show_nat.simps) simp

lemma show_nat_2: "10 \<le> n \<Longrightarrow> n < 100 \<Longrightarrow> show_nat n = two_digits n"
proof -
  assume h: "10 \<le> n" "n < 100"
  then have b: "n div 10 < 10" by (simp add: div_less_iff_less_mult)
  show ?thesis
    unfolding two_digits_def show_nat_ge10[OF h(1)] show_nat_lt10[OF b] by simp
qed

lemma show_nat_4: "1000 \<le> n \<Longrightarrow> n < 10000 \<Longrightarrow> show_nat n = four_digits n"
proof -
  assume h: "1000 \<le> n" "n < 10000"
  from h have a: "10 \<le> n" by simp
  from h have b: "10 \<le> n div 10" by (simp add: less_eq_div_iff_mult_less_eq)
  have e: "n div 10 div 10 = n div 100" "n div 100 div 10 = n div 1000"
    by (simp_all add: div_mult2_eq[symmetric])
  from h have c: "10 \<le> n div 100" "n div 100 < 100"
    by (simp_all add: less_eq_div_iff_mult_less_eq div_less_iff_less_mult)
  have "show_nat n = show_nat (n div 10) @ [digit n]" using a by (rule show_nat_ge10)
  also have "show_nat (n div 10) = show_nat (n div 10 div 10) @ [digit (n div 10)]"
    using b by (rule show_nat_ge10)
  also have "show_nat (n div 10 div 10) = two_digits (n div 100)"
    unfolding e using c by (rule show_nat_2)
  finally show ?thesis unfolding two_digits_def four_digits_def e by simp
qed


lemma zero_pad_2: "n < 100 \<Longrightarrow> zero_pad 2 n = two_digits n"
proof (cases "n < 10")
  case True
  then show ?thesis
    unfolding zero_pad_def show_nat_lt10[OF True] two_digits_def by (simp add: digit_def)
next
  case False
  assume "n < 100"
  with False have "show_nat n = two_digits n" by (simp add: show_nat_2 del: show_nat.simps)
  then show ?thesis unfolding zero_pad_def by (simp add: two_digits_def del: show_nat.simps)
qed

lemma zero_pad_4: "1000 \<le> n \<Longrightarrow> n < 10000 \<Longrightarrow> zero_pad 4 n = four_digits n"
  unfolding zero_pad_def by (simp add: show_nat_4 four_digits_def del: show_nat.simps)

lemma strftime_iso:
  assumes "1000 \<le> year d" "year d < 10000" "month d < 100" "day d < 100"
    "hour d < 100" "minute d < 100" "second d < 100"
  shows "strftime time_format d = iso_utc d"
  using assms
  by (simp add: time_format_def directive_def iso_utc_def zero_pad_2 zero_pad_4 del: show_nat.simps)

lemma days_before_month_Suc:
  "1 \<le> m \<Longrightarrow> days_before_month y (Suc m) = days_before_month y m + days_in_month y m"
  by (simp add: days_before_month_def)

lemma upt_1_12: "[1..<12] = [1, 2, 3, 4, 5, 6, 7, 8, 9, 10, 11::nat]"
  by code_simp

lemma days_before_month_12: "days_before_month y 12 = (if is_leap y then 335 else 334)"
  unfolding days_before_month_def upt_1_12 by (simp add: days_in_month_def)

lemma div_Suc_if: "0 < k \<Longrightarrow> Suc n div k = n div k + (if Suc n mod k = 0 then 1 else 0)"
  by (simp add: div_Suc mod_Suc)

lemma days_before_year_Suc:
  "days_before_year (Suc (Suc n)) = days_before_year (Suc n) + (if is_leap (Suc n) then 366 else 365)"
proof -
  define a b c where abc: "a = n div 4" "b = n div 100" "c = n div 400"
  define x4 x100 x400 :: nat where
    x: "x4 = (if Suc n mod 4 = 0 then 1 else 0)" "x100 = (if Suc n mod 100 = 0 then 1 else 0)"
       "x400 = (if Suc n mod 400 = 0 then 1 else 0)"
  have ba: "b \<le> a" unfolding abc by (rule div_le_mono2) simp_all
  have m1: "Suc n mod 100 = 0 \<Longrightarrow> Suc n mod 4 = 0"
    using mod_mod_cancel[of 4 100 "Suc n"] by simp
  have m2: "Suc n mod 400 = 0 \<Longrightarrow> Suc n mod 100 = 0"
    using mod_mod_cancel[of 100 400 "Suc n"] by simp
  have xs: "x400 \<le> x100" "x100 \<le> x4" "x4 \<le> 1"
    using m1 m2 unfolding x by (simp_all split: if_splits)
  have leap: "(if is_leap (Suc n) then 366 else 365) = 365 + x4 - x100 + x400"
    using m1 m2 unfolding x is_leap_def by (simp split: if_splits)
  have L: "days_before_year (Suc n) = n * 365 + a - b + c"
    unfolding days_before_year_def abc by simp
  have R: "days_before_year (Suc (Suc n)) = Suc n * 365 + (a + x4) - (b + x100) + (c + x400)"
    unfolding days_before_year_def abc x
    by (simp only: diff_Suc_1 div_Suc_if[of 4] div_Suc_if[of 100] div_Suc_if[of 400] zero_less_numeral)
  have "Suc n * 365 + (a + x4) - (b + x100) + (c + x400) = (n * 365 + a - b + c) + (365 + x4 - x100 + x400)"
    using ba xs by simp
  then show ?thesis unfolding L R leap .
qed


lemma days_in_month_ge: "28 \<le> days_in_month y m"
  by (simp add: days_in_month_def)

lemma days_in_month_le: "days_in_month y m \<le> 31"
  by (simp add: days_in_month_def)

lemma days_before_month_1: "days_before_month y (Suc 0) = 0"
  by (simp add: days_before_month_def)

lemma minus_one_hour_instant:
  assumes v: "valid_datetime d" and y: "1 < year d"
  shows "\<exists>e. minus_one_hour d = Inr e \<and> valid_datetime e \<and> instant e + 3600 = instant d
           \<and> year d \<le> Suc (year e)"
proof -
  have cases4: "1 \<le> hour d \<or> (hour d = 0 \<and> 1 < day d) \<or> (hour d = 0 \<and> day d = 1 \<and> 1 < month d)
      \<or> (hour d = 0 \<and> day d = 1 \<and> month d = 1)"
    using v unfolding valid_datetime_def by linarith
  then consider (h) "1 \<le> hour d"
    | (d) "hour d = 0" "1 < day d"
    | (m) "hour d = 0" "day d = 1" "1 < month d"
    | (y) "hour d = 0" "day d = 1" "month d = 1"
    by auto
  then show ?thesis
  proof cases
    case h
    then show ?thesis using v
      by (auto simp: minus_one_hour_def valid_datetime_def instant_def)
  next
    case d
    then show ?thesis using v
      by (auto simp: minus_one_hour_def valid_datetime_def instant_def)
  next
    case m
    then obtain k where k: "month d = Suc k" "1 \<le> k" by (cases "month d") auto
    have dim: "28 \<le> days_in_month (year d) k" "days_in_month (year d) k \<le> 31"
      by (rule days_in_month_ge, rule days_in_month_le)
    define q where "q = days_in_month (year d) k"
    have e: "minus_one_hour d = Inr (d\<lparr>month := k, day := q, hour := 23\<rparr>)"
      using m k by (simp add: minus_one_hour_def q_def)
    have val: "valid_datetime (d\<lparr>month := k, day := q, hour := 23\<rparr>)"
      using v k dim unfolding valid_datetime_def q_def by simp
    have "instant (d\<lparr>month := k, day := q, hour := 23\<rparr>) + 3600 = instant d"
      using m dim unfolding instant_def k(1) days_before_month_Suc[OF k(2)] q_def[symmetric]
      by simp
    with e val show ?thesis by simp
  next
    case y
    from assms(2) obtain n where n: "year d = Suc (Suc n)"
      by (metis One_nat_def Suc_lessE Suc_pred less_imp_Suc_add zero_less_Suc)
    let ?e = "d\<lparr>year := Suc n, month := 12, day := 31, hour := 23\<rparr>"
    have e: "minus_one_hour d = Inr ?e"
      using y n by (simp add: minus_one_hour_def)
    have val: "valid_datetime ?e"
      using v n unfolding valid_datetime_def by (simp add: days_in_month_def)
    have "instant ?e + 3600 = instant d"
      using y unfolding instant_def n
      by (simp add: days_before_year_Suc days_before_month_12 days_before_month_1)
    with e val n show ?thesis by simp
  qed
qed

subsection \<open>What \<open>push\<close> and \<open>resolve\<close> send\<close>

text \<open>A request is sent only once it has been built, and it is the only one.\<close>

lemma push_alert_sent:
  "req \<in> set (snd (push_alert send args now)) \<Longrightarrow> push_request args now = Inr req"
  by (auto simp: push_alert_def split: sum.splits if_splits)

lemma resolve_alert_sent:
  "req \<in> set (snd (resolve_alert send args now)) \<Longrightarrow> resolve_request args now = Inr req"
  by (auto simp: resolve_alert_def split: sum.splits if_splits)

lemma push_alert_sends_once:
  assumes "\<forall>p \<in> set (label_pairs args). CHR ''='' \<in> set p"
    and "\<forall>p \<in> set (case annotations args of None \<Rightarrow> [] | Some ps \<Rightarrow> ps). CHR ''='' \<in> set p"
  shows "\<exists>req. snd (push_alert send args now) = [req]"
proof -
  from parse_kv_loop_total[OF assms(1)] obtain l where "parse_kv (labels args) = Inr l"
    unfolding parse_kv_def label_pairs_def by blast
  moreover from parse_kv_loop_total[OF assms(2)] obtain a where "parse_kv (annotations args) = Inr a"
    unfolding parse_kv_def by blast
  ultimately show ?thesis
    by (simp add: push_alert_def push_request_def split: sum.splits)
qed

lemma dict_set_keys: "set (map fst (dict_set k v d)) = insert k (set (map fst d))"
  by (induction d) auto

lemma dict_set_distinct: "distinct (map fst d) \<Longrightarrow> distinct (map fst (dict_set k v d))"
proof (induction d)
  case Nil
  then show ?case by simp
next
  case (Cons p d)
  then show ?case using dict_set_keys[of k v d] by auto
qed

lemma parse_kv_loop_distinct:
  "distinct (map fst d) \<Longrightarrow> parse_kv_loop ps d = Inr r \<Longrightarrow> distinct (map fst r)"
proof (induction ps arbitrary: d)
  case Nil
  then show ?case by simp
next
  case (Cons p ps)
  obtain k v where kv: "split_eq p = (k, v)" by (cases "split_eq p")
  from Cons.prems(2) have "parse_kv_loop ps (dict_set k v d) = Inr r"
    by (simp add: kv split: if_splits)
  with Cons.IH[OF dict_set_distinct[OF Cons.prems(1)]] show ?case .
qed

lemma map_of_rev_dict: "distinct (map fst xs) \<Longrightarrow> map_of (rev xs) = map_of xs"
proof -
  assume d: "distinct (map fst xs)"
  then have "distinct (map fst (rev xs))" by (simp add: rev_map[symmetric])
  from map_of_inject_set[OF this d] show ?thesis by simp
qed

lemma resolve_alert_sends_once:
  assumes "\<forall>p \<in> set (label_pairs args). CHR ''='' \<in> set p"
    and "valid_datetime now" and "1 < year now"
  shows "\<exists>req. snd (resolve_alert send args now) = [req]"
proof -
  from parse_kv_loop_total[OF assms(1)] obtain l where "parse_kv (labels args) = Inr l"
    unfolding parse_kv_def label_pairs_def by blast
  moreover from minus_one_hour_instant[OF assms(2,3)] obtain e where "minus_one_hour now = Inr e"
    by blast
  ultimately show ?thesis
    by (simp add: resolve_alert_def resolve_request_def split: sum.splits)
qed

lemma example_now_valid: "valid_datetime example_now"
  by (simp add: example_now_def valid_datetime_def days_in_month_def)

lemma example_push_run:
  "\<exists>req. snd (push_alert example_send example_args example_now) = [req]"
  by (rule push_alert_sends_once) (simp_all add: example_args_def label_pairs_def)

text \<open>
  Claim C8. Every request that \<open>push_alert\<close> sends carries exactly one alert object, and
  its \<open>endsAt\<close> is the literal string \<open>0001-01-01T00:00:00Z\<close>, whatever the arguments, the
  clock and the server's answer are. (When a \<open>--labels\<close> or \<open>--annotations\<close> string has
  no \<open>=\<close> the script exits before sending anything; otherwise exactly one request is
  sent, \<open>push_alert_sends_once\<close>.)
\<close>

theorem push_endsAt_literal:
  assumes "req \<in> set (snd (push_alert send args now))"
  shows "\<exists>a. post_json req = [a] \<and> endsAt a = ''0001-01-01T00:00:00Z''"
proof -
  from assms have "push_request args now = Inr req" by (rule push_alert_sent)
  then show ?thesis
    by (auto simp: push_request_def split: sum.splits)
qed

theorem push_endsAt_literal_witness:
  "\<exists>req a. snd (push_alert example_send example_args example_now) = [req]
     \<and> post_json req = [a] \<and> endsAt a = ''0001-01-01T00:00:00Z''"
proof -
  from example_push_run obtain req
    where run: "snd (push_alert example_send example_args example_now) = [req]" ..
  then have "req \<in> set (snd (push_alert example_send example_args example_now))" by simp
  from push_endsAt_literal[OF this] run show ?thesis by blast
qed

text \<open>
  Claim C9. For a valid clock reading \<open>now\<close> (in a year after 1000, where \<open>%Y\<close> has
  four digits on every platform), the one alert object that \<open>resolve_alert\<close> sends has
  \<open>endsAt\<close> equal to \<open>now\<close> and \<open>startsAt\<close> equal to the time 3600 seconds before
  \<open>now\<close>, both written as \<open>YYYY-MM-DDTHH:MM:SSZ\<close>.
\<close>

theorem resolve_times:
  assumes "valid_datetime now" and "1000 < year now"
    and "req \<in> set (snd (resolve_alert send args now))"
  shows "\<exists>a earlier. post_json req = [a] \<and> minus_one_hour now = Inr earlier
           \<and> valid_datetime earlier \<and> instant earlier + 3600 = instant now
           \<and> startsAt a = iso_utc earlier \<and> endsAt a = iso_utc now"
proof -
  from assms(2) have y1: "1 < year now" by simp
  from minus_one_hour_instant[OF assms(1) y1] obtain e
    where e: "minus_one_hour now = Inr e" "valid_datetime e" "instant e + 3600 = instant now"
      "year now \<le> Suc (year e)"
    by blast
  from assms(3) have "resolve_request args now = Inr req" by (rule resolve_alert_sent)
  then obtain a where a: "post_json req = [a]" "startsAt a = strftime time_format e"
      "endsAt a = strftime time_format now"
    using e(1) by (auto simp: resolve_request_def split: sum.splits)
  have "strftime time_format now = iso_utc now"
    using assms(1,2) unfolding valid_datetime_def
    by (intro strftime_iso) (simp_all add: days_in_month_def split: if_splits)
  moreover have "strftime time_format e = iso_utc e"
    using e(2,4) assms(2) unfolding valid_datetime_def
    by (intro strftime_iso) (simp_all add: days_in_month_def split: if_splits)
  ultimately show ?thesis using a e by auto
qed

theorem resolve_times_witness:
  "valid_datetime example_now \<and> 1000 < year example_now \<and>
   (\<exists>req a. snd (resolve_alert example_send example_args example_now) = [req]
      \<and> post_json req = [a]
      \<and> startsAt a = ''2024-02-29T23:30:05Z'' \<and> endsAt a = ''2024-03-01T00:30:05Z'')"
proof -
  have v: "valid_datetime example_now" by (rule example_now_valid)
  have y: "1000 < year example_now" by (simp add: example_now_def)
  have "\<exists>req. snd (resolve_alert example_send example_args example_now) = [req]"
    using v by (rule resolve_alert_sends_once[rotated])
      (simp_all add: example_args_def label_pairs_def example_now_def)
  then obtain req where run: "snd (resolve_alert example_send example_args example_now) = [req]" ..
  then have "req \<in> set (snd (resolve_alert example_send example_args example_now))" by simp
  from resolve_times[OF v y this] obtain a earlier where a: "post_json req = [a]"
    and e: "minus_one_hour example_now = Inr earlier"
    and s: "startsAt a = iso_utc earlier" "endsAt a = iso_utc example_now"
    by blast
  from e have "earlier = \<lparr>year = 2024, month = 2, day = 29, hour = 23, minute = 30, second = 5\<rparr>"
    by (simp add: minus_one_hour_def example_now_def days_in_month_def is_leap_def)
  with s have "startsAt a = ''2024-02-29T23:30:05Z''" "endsAt a = ''2024-03-01T00:30:05Z''"
    by (simp_all add: iso_utc_def two_digits_def four_digits_def digit_def example_now_def)
  with v y run a show ?thesis by blast
qed

text \<open>
  Claim C10. In every request that \<open>push_alert\<close> or \<open>resolve_alert\<close> sends, the labels of
  the alert are the dict \<open>{alertname, severity, system_key}\<close> built from the flags,
  updated with the parsed \<open>--labels\<close> pairs. So a label has the value of the last
  \<open>--labels\<close> pair with that key when there is one, also for the keys \<open>alertname\<close>,
  \<open>severity\<close> and \<open>system_key\<close>, and the flag's value only otherwise.
\<close>

theorem labels_flags_then_pairs:
  assumes "req \<in> set (snd (push_alert send args now)) \<union> set (snd (resolve_alert send' args now'))"
  shows "\<exists>a extra. parse_kv (labels args) = Inr extra \<and> post_json req = [a]
           \<and> alert_labels a = dict_update (base_labels args) extra
           \<and> (\<forall>k. map_of (alert_labels a) k =
                 (case map_of (rev (map split_eq (label_pairs args))) k of
                    Some v \<Rightarrow> Some v
                  | None \<Rightarrow> map_of (base_labels args) k))"
proof -
  from assms have "push_request args now = Inr req \<or> resolve_request args now' = Inr req"
    by (auto dest: push_alert_sent resolve_alert_sent)
  then obtain a extra where ex: "parse_kv (labels args) = Inr extra"
    and a: "post_json req = [a]" "alert_labels a = dict_update (base_labels args) extra"
    by (auto simp: push_request_def resolve_request_def split: sum.splits)
  from ex have "map_of extra = map_of (rev (map split_eq (label_pairs args)))"
    unfolding parse_kv_def label_pairs_def by (auto dest: parse_kv_loop_map_of)
  moreover from ex have "distinct (map fst extra)"
    unfolding parse_kv_def by (auto dest: parse_kv_loop_distinct[rotated])
  then have "map_of (rev extra) = map_of extra" by (rule map_of_rev_dict)
  ultimately have "map_of (alert_labels a) =
      map_of (base_labels args) ++ map_of (rev (map split_eq (label_pairs args)))"
    unfolding a(2) map_of_dict_update by simp
  then have "\<forall>k. map_of (alert_labels a) k =
                 (case map_of (rev (map split_eq (label_pairs args))) k of
                    Some v \<Rightarrow> Some v
                  | None \<Rightarrow> map_of (base_labels args) k)"
    by (simp add: map_add_def)
  with ex a show ?thesis by blast
qed

theorem labels_flags_then_pairs_witness:
  "(\<exists>req a. snd (push_alert example_send example_args example_now) = [req]
      \<and> post_json req = [a]
      \<and> map_of (alert_labels a) ''severity'' = Some ''warning''
      \<and> map_of (alert_labels a) ''alertname'' = Some ''HighCPU''
      \<and> map_of (alert_labels a) ''host'' = Some ''server-01'') \<and>
   (\<exists>req a. snd (resolve_alert example_send example_args example_now) = [req]
      \<and> post_json req = [a]
      \<and> map_of (alert_labels a) ''severity'' = Some ''warning''
      \<and> map_of (alert_labels a) ''system_key'' = Some ''NOC-1'')"
proof -
  have wf: "\<forall>p \<in> set (label_pairs example_args). CHR ''='' \<in> set p"
    by (simp add: example_args_def label_pairs_def)
  have "\<exists>req. snd (push_alert example_send example_args example_now) = [req]"
    using wf by (rule push_alert_sends_once) (simp add: example_args_def)
  then obtain req where run: "snd (push_alert example_send example_args example_now) = [req]" ..
  then have "req \<in> set (snd (push_alert example_send example_args example_now))
      \<union> set (snd (resolve_alert example_send example_args example_now))" by simp
  from labels_flags_then_pairs[OF this] obtain a where a: "post_json req = [a]"
    and l: "\<And>k. map_of (alert_labels a) k =
                 (case map_of (rev (map split_eq (label_pairs example_args))) k of
                    Some v \<Rightarrow> Some v
                  | None \<Rightarrow> map_of (base_labels example_args) k)"
    by blast
  have "map_of (alert_labels a) ''severity'' = Some ''warning''"
    "map_of (alert_labels a) ''alertname'' = Some ''HighCPU''"
    "map_of (alert_labels a) ''host'' = Some ''server-01''"
    unfolding l by (simp_all add: label_pairs_def example_args_def split_eq_def base_labels_def)
  with run a have push: "\<exists>req a. snd (push_alert example_send example_args example_now) = [req]
      \<and> post_json req = [a]
      \<and> map_of (alert_labels a) ''severity'' = Some ''warning''
      \<and> map_of (alert_labels a) ''alertname'' = Some ''HighCPU''
      \<and> map_of (alert_labels a) ''host'' = Some ''server-01''" by blast
  have "\<exists>req. snd (resolve_alert example_send example_args example_now) = [req]"
    using wf example_now_valid by (rule resolve_alert_sends_once) (simp add: example_now_def)
  then obtain req' where run': "snd (resolve_alert example_send example_args example_now) = [req']" ..
  then have "req' \<in> set (snd (push_alert example_send example_args example_now))
      \<union> set (snd (resolve_alert example_send example_args example_now))" by simp
  from labels_flags_then_pairs[OF this] obtain a' where a': "post_json req' = [a']"
    and l': "\<And>k. map_of (alert_labels a') k =
                 (case map_of (rev (map split_eq (label_pairs example_args))) k of
                    Some v \<Rightarrow> Some v
                  | None \<Rightarrow> map_of (base_labels example_args) k)"
    by blast
  have "map_of (alert_labels a') ''severity'' = Some ''warning''"
    "map_of (alert_labels a') ''system_key'' = Some ''NOC-1''"
    unfolding l' by (simp_all add: label_pairs_def example_args_def split_eq_def base_labels_def)
  with run' a' have "\<exists>req a. snd (resolve_alert example_send example_args example_now) = [req]
      \<and> post_json req = [a]
      \<and> map_of (alert_labels a) ''severity'' = Some ''warning''
      \<and> map_of (alert_labels a) ''system_key'' = Some ''NOC-1''" by blast
  with push show ?thesis by blast
qed

section \<open>Properties of alerting_config.py\<close>

subsection \<open>Base64 and the PKCE parameters\<close>

lemma sextet_bounds:
  "sextet1 a < 64" "sextet2 a b < 64" "sextet3 b c < 64" "sextet4 c < 64"
proof -
  have a: "unat a < 256" and b: "unat b < 256" and c: "unat c < 256"
    using unsigned_less[of a] unsigned_less[of b] unsigned_less[of c] by simp_all
  show "sextet1 a < 64" using a unfolding sextet1_def by (simp add: div_less_iff_less_mult)
  have "unat a mod 4 < 4" "unat b div 16 < 16" using b by (simp_all add: div_less_iff_less_mult)
  then show "sextet2 a b < 64" unfolding sextet2_def by linarith
  have "unat b mod 16 < 16" "unat c div 64 < 4" using c by (simp_all add: div_less_iff_less_mult)
  then show "sextet3 b c < 64" unfolding sextet3_def by linarith
  show "sextet4 c < 64" unfolding sextet4_def by simp
qed

lemma alphabet_all:
  "list_all (\<lambda>i. urlsafe_translate (b64_alphabet ! i) = b64url_alphabet ! i
      \<and> b64url_alphabet ! i \<noteq> CHR ''='' \<and> urlsafe_char (b64url_alphabet ! i)) [0..<64]"
  by code_simp


lemma alphabet_at:
  assumes "i < 64"
  shows "urlsafe_translate (b64_alphabet ! i) = b64url_alphabet ! i"
    and "b64url_alphabet ! i \<noteq> CHR ''=''"
    and "urlsafe_char (b64url_alphabet ! i)"
  using alphabet_all assms unfolding list_all_iff by simp_all

lemma urlsafe_translate_pad: "urlsafe_translate (CHR ''='') = CHR ''=''"
  by (simp add: urlsafe_translate_def)

lemma urlsafe_b64encode_pad:
  "\<exists>k. urlsafe_b64encode bs = b64url_nopad bs @ replicate k (CHR ''='')"
proof (induction bs rule: b64encode.induct)
  case (1 a b c rest)
  then show ?case
    by (auto simp: urlsafe_b64encode_def alphabet_at(1) sextet_bounds)
next
  case (2 a b)
  have "urlsafe_b64encode [a, b] = b64url_nopad [a, b] @ replicate 1 (CHR ''='')"
    by (simp add: urlsafe_b64encode_def alphabet_at(1) sextet_bounds urlsafe_translate_pad)
  then show ?case by blast
next
  case (3 a)
  have "urlsafe_b64encode [a] = b64url_nopad [a] @ replicate 2 (CHR ''='')"
    by (simp add: urlsafe_b64encode_def alphabet_at(1) sextet_bounds urlsafe_translate_pad
        numeral_2_eq_2)
  then show ?case by blast
next
  case 4
  have "urlsafe_b64encode [] = b64url_nopad [] @ replicate 0 (CHR ''='')"
    by (simp add: urlsafe_b64encode_def)
  then show ?case by blast
qed

lemma b64url_nopad_chars:
  "list_all (\<lambda>c. c \<noteq> CHR ''='' \<and> urlsafe_char c) (b64url_nopad bs)"
  by (induction bs rule: b64url_nopad.induct) (simp_all add: alphabet_at sextet_bounds)

lemma rstrip_replicate:
  "list_all (\<lambda>x. x \<noteq> c) xs \<Longrightarrow> rstrip c (xs @ replicate k c) = xs"
proof -
  assume a: "list_all (\<lambda>x. x \<noteq> c) xs"
  have "dropWhile (\<lambda>x. x = c) (rev xs) = rev xs"
  proof (cases "rev xs")
    case Nil
    then show ?thesis by simp
  next
    case (Cons y ys)
    then have "y \<in> set xs" by (metis list.set_intros(1) set_rev)
    with a have "y \<noteq> c" by (simp add: list_all_iff)
    with Cons show ?thesis by simp
  qed
  moreover have "dropWhile (\<lambda>x. x = c) (replicate k c @ rev xs) = dropWhile (\<lambda>x. x = c) (rev xs)"
    by (rule dropWhile_append2) simp
  ultimately show ?thesis
    unfolding rstrip_def by simp
qed

lemma rstrip_urlsafe_b64encode: "rstrip (CHR ''='') (urlsafe_b64encode bs) = b64url_nopad bs"
proof -
  obtain k where k: "urlsafe_b64encode bs = b64url_nopad bs @ replicate k (CHR ''='')"
    using urlsafe_b64encode_pad by blast
  have "list_all (\<lambda>x. x \<noteq> CHR ''='') (b64url_nopad bs)"
    using b64url_nopad_chars[of bs] by (simp add: list_all_iff)
  then show ?thesis unfolding k by (rule rstrip_replicate)
qed

lemma length_b64url_nopad:
  "length (b64url_nopad bs) =
     4 * (length bs div 3) + (if length bs mod 3 = 0 then 0 else length bs mod 3 + 1)"
proof (induction bs rule: b64url_nopad.induct)
  case (1 a b c rest)
  have "(3 + length rest) div 3 = Suc (length rest div 3)" "(3 + length rest) mod 3 = length rest mod 3"
    by simp_all
  with 1 show ?case by simp
qed simp_all

subsection \<open>Runs of the login flow\<close>

lemma ok_not_422: "ok r \<Longrightarrow> status_code r \<noteq> 422"
  by (auto simp: ok_def)

lemmas step_defs = step1_authorize_def step2_sign_in_def step3_submit_def step4_consent_def
  step5_code_def step6_token_def step7_exchange_def and_then_def http_request_def succeed_def fail_def
  evaluate_def

lemmas example_defs = run_example_def example_auth_call_def example_identifiers_call_def
  example_token_call_def example_exchange_call_def
  scripted_def json_response_def plain_response_def redirect_response_def
  responses_to_submit_def responses_from_final_def

lemmas reading_defs = read_field_def read_token_def response_json_def header_get_def
  first_code_def example_parse_query_def

text \<open>A step only adds calls, and every run starts with the authorization call.\<close>

lemma and_then_extends:
  assumes "\<And>tr. prefix tr (snd (m tr))" and "\<And>x tr. prefix tr (snd (f x tr))"
  shows "prefix tr (snd (and_then m f tr))"
proof (cases "m tr")
  case (Pair res tr')
  with assms(1)[of tr] have p: "prefix tr tr'" by simp
  show ?thesis
  proof (cases res)
    case (Inl e)
    with Pair p show ?thesis by (simp add: and_then_def)
  next
    case (Inr x)
    with Pair have "and_then m f tr = f x tr'" by (simp add: and_then_def)
    with p assms(2)[of tr' x] show ?thesis by (metis prefix_order.order_trans)
  qed
qed

lemma steps_extend:
  "prefix tr (snd (step2_sign_in env e pw tr))"
  "prefix tr (snd (step3_submit env tr))"
  "prefix tr (snd (step4_consent env rt tr))"
  "prefix tr (snd (step5_code env pq rt tr))"
  "prefix tr (snd (step6_token env ru v c tr))"
  "prefix tr (snd (step7_exchange env bu t tr))"
  unfolding step_defs Let_def
  by (auto split: sum.splits option.splits)

lemma login_first_call:
  "prefix [auth_call (redirect_uri_of base_url) (pkce_setup sha256_of urandom)]
     (snd (logto_login env parse_query sha256_of urandom base_url email password))"
proof -
  let ?c_auth = "auth_call (redirect_uri_of base_url) (pkce_setup sha256_of urandom)"
  let ?rest = "\<lambda>_::unit.
         and_then (step2_sign_in env email password) (\<lambda>_.
         and_then (step3_submit env) (\<lambda>redirect_to.
         and_then (step4_consent env redirect_to) (\<lambda>redirect_to.
         and_then (step5_code env parse_query redirect_to) (\<lambda>code.
         and_then (step6_token env (redirect_uri_of base_url) (code_verifier (pkce_setup sha256_of urandom)) code) (\<lambda>logto_token.
         step7_exchange env (backend_url_of base_url) logto_token)))))"
  have rest: "prefix tr (snd (?rest x tr))" for x tr
    by (intro and_then_extends steps_extend)
  have "snd (step1_authorize env (redirect_uri_of base_url) (pkce_setup sha256_of urandom) []) = [?c_auth]"
    by (simp add: step1_authorize_def and_then_def http_request_def succeed_def split: sum.splits)
  then have "prefix [?c_auth] (snd (and_then (step1_authorize env (redirect_uri_of base_url)
      (pkce_setup sha256_of urandom)) ?rest []))"
    using rest[of "[?c_auth]"]
    by (cases "step1_authorize env (redirect_uri_of base_url) (pkce_setup sha256_of urandom) []")
      (auto simp: and_then_def split: sum.splits)
  then show ?thesis unfolding logto_login_def Let_def .
qed

text \<open>
  Claim C4. In every login attempt (for every random source and every digest function)
  the code challenge is the unpadded base64url encoding of the digest of the encoded code
  verifier, and the verifier is a string of 86 URL-safe characters, so of at least 43.
  The challenge is the one that the first call of the run sends, with the method
  \<open>S256\<close>.
\<close>

theorem pkce_challenge:
  fixes sha256_of urandom
  defines "p \<equiv> pkce_setup sha256_of urandom"
  shows "code_challenge p = b64url_nopad (sha256_of (str_encode (code_verifier p)))
   \<and> 43 \<le> length (code_verifier p) \<and> length (code_verifier p) = 86
   \<and> list_all urlsafe_char (code_verifier p)
   \<and> (\<exists>c rest.
         snd (logto_login env parse_query sha256_of urandom base_url email password) = c # rest
         \<and> map_of (call_params c) ''code_challenge'' = Some (code_challenge p)
         \<and> map_of (call_params c) ''code_challenge_method'' = Some ''S256'')"
proof -
  have v: "code_verifier p = b64url_nopad (token_bytes urandom 0 64)"
    by (simp add: p_def pkce_setup_def Let_def token_urlsafe_def rstrip_urlsafe_b64encode)
  have c: "code_challenge p = b64url_nopad (sha256_of (str_encode (code_verifier p)))"
    by (simp add: p_def pkce_setup_def Let_def rstrip_urlsafe_b64encode)
  have l: "length (b64url_nopad (token_bytes urandom 0 64)) = 86"
    unfolding length_b64url_nopad by (simp add: token_bytes_def)
  have u: "list_all urlsafe_char (b64url_nopad (token_bytes urandom 0 64))"
    using b64url_nopad_chars[of "token_bytes urandom 0 64"] by (simp add: list_all_iff)
  obtain rest where
    "snd (logto_login env parse_query sha256_of urandom base_url email password)
       = auth_call (redirect_uri_of base_url) p # rest"
    using login_first_call[of base_url sha256_of urandom env parse_query email password]
    unfolding p_def by (auto simp: prefix_def)
  moreover have
    "map_of (call_params (auth_call (redirect_uri_of base_url) p)) ''code_challenge''
       = Some (code_challenge p)"
    "map_of (call_params (auth_call (redirect_uri_of base_url) p)) ''code_challenge_method''
       = Some ''S256''"
    by (simp_all add: auth_call_def session_call_def)
  ultimately have "\<exists>c rest.
         snd (logto_login env parse_query sha256_of urandom base_url email password) = c # rest
         \<and> map_of (call_params c) ''code_challenge'' = Some (code_challenge p)
         \<and> map_of (call_params c) ''code_challenge_method'' = Some ''S256''"
    by blast
  with c l u show ?thesis unfolding v by simp
qed

lemma contains_sublist: "contains sub s = sublist sub s"
  by (induction s) (auto simp: sublist_Cons_right)

lemma session_calls:
  "call_client (auth_call ru p) = ViaSession" "call_client sign_in_call = ViaSession"
  "call_client (identifiers_call e pw) = ViaSession" "call_client submit_call = ViaSession"
  "call_client (redirect_call rt) = ViaSession" "call_client (consent_page_call l) = ViaSession"
  "call_client consent_call = ViaSession"
  by (simp_all add: auth_call_def sign_in_call_def identifiers_call_def submit_call_def
      redirect_call_def consent_page_call_def consent_call_def session_call_def)

text \<open>
  Claim C1. When every call is answered and the answers are the expected ones (the
  sign-in is accepted, the submit response names a \<open>redirectTo\<close>, the consent round trip,
  if the interim redirect asks for one, goes through, the final redirect carries a
  \<open>code\<close>, the token endpoint returns an \<open>access_token\<close> and the backend a
  \<open>data.token\<close>), \<open>logto_login\<close> returns that \<open>data.token\<close> and has made exactly these
  calls in this order: authorization start, sign-in PUT, identifiers PATCH, submit, the
  redirect fetches (with the consent calls between them when there are any), the
  token-endpoint POST and the backend exchange. Each call is written out with all its
  arguments: the calls up to the last redirect fetch are made on the session, the
  authorization call sends the challenge of the verifier that the token call sends, the
  token call sends the code read from the final redirect, and the exchange sends the
  access token that the token endpoint returned.
\<close>

theorem login_success:
  fixes env :: http_env and base_url email password :: string and sha256_of urandom
    and redirect_to consent_to logto_token token :: json
    and code :: string and r_interim r_final :: response
  defines "p \<equiv> pkce_setup sha256_of urandom"
    and "site \<equiv> rstrip (CHR ''/'') base_url"
  defines "c_auth \<equiv>
      \<lparr>call_client = ViaSession, call_method = GET,
       call_url = JStr ''https://qa.id.nethesis.it/oidc/auth'',
       call_params = 
         [(''client_id'', ''amz2744kof0iq3a6i7csu''),
          (''redirect_uri'', site @ ''/login-redirect''),
          (''response_type'', ''code''),
          (''scope'', ''openid profile email offline_access '' @
             ''urn:logto:scope:organizations urn:logto:scope:organization_roles''),
          (''state'', state p),
          (''code_challenge'', code_challenge p),
          (''code_challenge_method'', ''S256'')],
       call_payload = NoBody,
       call_headers = [], allow_redirects = False, call_timeout = None\<rparr>"
    and "c_put \<equiv>
      \<lparr>call_client = ViaSession, call_method = PUT,
       call_url = JStr ''https://qa.id.nethesis.it/api/interaction'',
       call_params = [],
       call_payload = JsonBody (JObj [(''event'', JStr ''SignIn'')]),
       call_headers = [], allow_redirects = True, call_timeout = None\<rparr>"
    and "c_ident \<equiv>
      \<lparr>call_client = ViaSession, call_method = PATCH,
       call_url = JStr ''https://qa.id.nethesis.it/api/interaction/identifiers'',
       call_params = [],
       call_payload = JsonBody (JObj [(''email'', JStr email), (''password'', JStr password)]),
       call_headers = [], allow_redirects = True, call_timeout = None\<rparr>"
    and "c_submit \<equiv>
      \<lparr>call_client = ViaSession, call_method = POST,
       call_url = JStr ''https://qa.id.nethesis.it/api/interaction/submit'',
       call_params = [],
       call_payload = NoBody,
       call_headers = [], allow_redirects = True, call_timeout = None\<rparr>"
    and "fetch \<equiv> \<lambda>u.
      \<lparr>call_client = ViaSession, call_method = GET,
       call_url = u,
       call_params = [],
       call_payload = NoBody,
       call_headers = [], allow_redirects = False, call_timeout = None\<rparr>"
    and "c_consent \<equiv>
      \<lparr>call_client = ViaSession, call_method = POST,
       call_url = JStr ''https://qa.id.nethesis.it/api/interaction/consent'',
       call_params = [],
       call_payload = NoBody,
       call_headers = [], allow_redirects = True, call_timeout = None\<rparr>"
    and "loc \<equiv> (case map_of (headers r_interim) ''Location'' of None \<Rightarrow> [] | Some l \<Rightarrow> l)"
  defines "interim \<equiv> [c_auth, c_put, c_ident, c_submit, fetch redirect_to]"
    and "c_page \<equiv> fetch (JStr (''https://qa.id.nethesis.it'' @ loc))"
  defines "pre \<equiv> interim @ (if sublist ''consent'' loc then [c_page, c_consent] else [])"
    and "target \<equiv> (if sublist ''consent'' loc then consent_to else redirect_to)"
    and "final_loc \<equiv>
      (case map_of (headers r_final) ''Location'' of None \<Rightarrow> [] | Some l \<Rightarrow> l)"
    and "c_token \<equiv>
      \<lparr>call_client = Direct, call_method = POST,
       call_url = JStr ''https://qa.id.nethesis.it/oidc/token'',
       call_params = [],
       call_payload = 
         FormData [(''grant_type'', ''authorization_code''),
                   (''code'', code),
                   (''redirect_uri'', site @ ''/login-redirect''),
                   (''client_id'', ''amz2744kof0iq3a6i7csu''),
                   (''code_verifier'', code_verifier p)],
       call_headers = [], allow_redirects = True, call_timeout = None\<rparr>"
    and "c_exchange \<equiv>
      \<lparr>call_client = Direct, call_method = POST,
       call_url = JStr (site @ ''/backend/api/auth/exchange''),
       call_params = [],
       call_payload = JsonBody (JObj [(''access_token'', logto_token)]),
       call_headers = [(''Content-Type'', ''application/json'')], allow_redirects = True, call_timeout = None\<rparr>"
  assumes h:
    "env [c_auth] = Inr r_auth"
    "env [c_auth, c_put] = Inr r_put"
    "env [c_auth, c_put, c_ident] = Inr r_patch"
    "status_code r_patch < 400 \<or> 600 \<le> status_code r_patch"
    "env [c_auth, c_put, c_ident, c_submit] = Inr r_submit"
    "body_json r_submit = Some (JObj submit_body)"
    "map_of submit_body ''redirectTo'' = Some redirect_to"
    "truthy redirect_to"
    "env interim = Inr r_interim"
    "sublist ''consent'' loc \<Longrightarrow> env (interim @ [c_page]) = Inr r_page"
    "sublist ''consent'' loc \<Longrightarrow> env (interim @ [c_page, c_consent]) = Inr r_consent"
    "sublist ''consent'' loc \<Longrightarrow> body_json r_consent = Some (JObj consent_body)"
    "sublist ''consent'' loc \<Longrightarrow> map_of consent_body ''redirectTo'' = Some consent_to"
    "env (pre @ [fetch target]) = Inr r_final"
    "parse_query final_loc = Inr qs"
    "map_of qs ''code'' = Some (code # others)"
    "code \<noteq> []"
    "env (pre @ [fetch target, c_token]) = Inr r_token"
    "body_json r_token = Some (JObj token_body)"
    "map_of token_body ''access_token'' = Some logto_token"
    "truthy logto_token"
    "env (pre @ [fetch target, c_token, c_exchange]) = Inr r_exchange"
    "body_json r_exchange = Some (JObj exchange_body)"
    "map_of exchange_body ''data'' = Some (JObj data_body)"
    "map_of data_body ''token'' = Some token"
    "truthy token"
  shows "logto_login env parse_query sha256_of urandom base_url email password
           = (Inr token, pre @ [fetch target, c_token, c_exchange])"
proof -
  from h(4) have patch_ok: "ok r_patch" "status_code r_patch \<noteq> 422"
    by (auto simp: ok_def)
  note locals = p_def site_def c_auth_def c_put_def c_ident_def c_submit_def fetch_def c_consent_def
    loc_def interim_def c_page_def pre_def target_def
    final_loc_def c_token_def c_exchange_def
  note model = logto_login_def Let_def step_defs auth_call_def sign_in_call_def identifiers_call_def
    submit_call_def redirect_call_def consent_page_call_def consent_call_def token_call_def
    exchange_call_def session_call_def LOGTO_ENDPOINT_def LOGTO_APP_ID_def
    LOGTO_REDIRECT_URI_PATH_def redirect_uri_of_def backend_url_of_def header_get_def
    read_field_def read_token_def response_json_def first_code_def contains_sublist
  show ?thesis
  proof (cases "sublist ''consent'' loc")
    case True
    with h patch_ok show ?thesis
      unfolding locals by (simp add: model)
  next
    case False
    with h patch_ok show ?thesis
      unfolding locals by (simp add: model)
  qed
qed

theorem login_success_witness:
  "\<exists>tr. run_example example_responses_consent = (Inr (JStr ''backend-jwt''), tr)
     \<and> map call_client tr =
         [ViaSession, ViaSession, ViaSession, ViaSession, ViaSession, ViaSession, ViaSession,
          ViaSession, Direct, Direct]
     \<and> map call_method tr = [GET, PUT, PATCH, POST, GET, GET, POST, GET, POST, POST]
     \<and> map call_url tr =
         [JStr ''https://qa.id.nethesis.it/oidc/auth'',
          JStr ''https://qa.id.nethesis.it/api/interaction'',
          JStr ''https://qa.id.nethesis.it/api/interaction/identifiers'',
          JStr ''https://qa.id.nethesis.it/api/interaction/submit'',
          JStr ''https://qa.id.nethesis.it/oidc/auth/abc'',
          JStr ''https://qa.id.nethesis.it/consent'',
          JStr ''https://qa.id.nethesis.it/api/interaction/consent'',
          JStr ''https://qa.id.nethesis.it/oidc/auth/def'',
          JStr ''https://qa.id.nethesis.it/oidc/token'',
          JStr ''https://my.example/backend/api/auth/exchange'']
     \<and> map_of (call_params (tr ! 0)) ''code_challenge''
         = Some (code_challenge (pkce_setup example_digest example_urandom))
     \<and> call_payload (tr ! 8) =
         FormData [(''grant_type'', ''authorization_code''),
                   (''code'', ''abc''),
                   (''redirect_uri'', ''https://my.example/login-redirect''),
                   (''client_id'', ''amz2744kof0iq3a6i7csu''),
                   (''code_verifier'', code_verifier (pkce_setup example_digest example_urandom))]
     \<and> call_payload (tr ! 9) = JsonBody (JObj [(''access_token'', JStr ''logto-token'')])"
  using login_success[where env = "scripted example_responses_consent"
      and base_url = example_base_url
      and sha256_of = example_digest and urandom = example_urandom
      and email = "''admin@example.com''" and password = "''s3cr3t''"
      and parse_query = example_parse_query
      and r_auth = "example_responses_consent ! 0" and r_put = "example_responses_consent ! 1"
      and r_patch = "example_responses_consent ! 2" and r_submit = "example_responses_consent ! 3"
      and submit_body = "[(''redirectTo'', JStr ''https://qa.id.nethesis.it/oidc/auth/abc'')]"
      and redirect_to = "JStr ''https://qa.id.nethesis.it/oidc/auth/abc''"
      and r_interim = "example_responses_consent ! 4"
      and r_page = "example_responses_consent ! 5"
      and r_consent = "example_responses_consent ! 6"
      and consent_body = "[(''redirectTo'', JStr ''https://qa.id.nethesis.it/oidc/auth/def'')]"
      and consent_to = "JStr ''https://qa.id.nethesis.it/oidc/auth/def''"
      and r_final = "example_responses_consent ! 7"
      and qs = "[(''code'', [''abc'']), (''state'', [''xyz''])]"
      and code = "''abc''" and others = "[]"
      and r_token = "example_responses_consent ! 8"
      and token_body = "[(''access_token'', JStr ''logto-token'')]"
      and logto_token = "JStr ''logto-token''"
      and r_exchange = "example_responses_consent ! 9"
      and exchange_body = "[(''data'', JObj [(''token'', JStr ''backend-jwt'')])]"
      and data_body = "[(''token'', JStr ''backend-jwt'')]"
      and token = "JStr ''backend-jwt''"]
  by (simp add: example_defs example_responses_consent_def example_parse_query_def rstrip_def
      example_base_url_def contains_sublist[symmetric])

subsection \<open>Timeouts\<close>

lemma no_timeout_send:
  "call_timeout c = None \<Longrightarrow> no_timeout tr \<Longrightarrow> no_timeout (snd (http_request env c tr))"
  by (simp add: http_request_def no_timeout_def split: sum.splits)

lemma no_timeout_and_then:
  assumes "\<And>tr. no_timeout tr \<Longrightarrow> no_timeout (snd (m tr))"
    and "\<And>x tr. no_timeout tr \<Longrightarrow> no_timeout (snd (f x tr))"
    and "no_timeout tr"
  shows "no_timeout (snd (and_then m f tr))"
proof (cases "m tr")
  case (Pair res tr')
  with assms(1)[OF assms(3)] have "no_timeout tr'" by simp
  with Pair assms(2) show ?thesis by (cases res) (simp_all add: and_then_def)
qed

lemma no_timeout_pure:
  "no_timeout tr \<Longrightarrow> no_timeout (snd (succeed x tr))"
  "no_timeout tr \<Longrightarrow> no_timeout (snd (fail e tr))"
  "no_timeout tr \<Longrightarrow> no_timeout (snd (evaluate v tr))"
  by (simp_all add: succeed_def fail_def evaluate_def split: sum.splits)

lemma call_timeouts:
  "call_timeout (auth_call ru p) = None" "call_timeout sign_in_call = None"
  "call_timeout (identifiers_call e pw) = None" "call_timeout submit_call = None"
  "call_timeout (redirect_call rt) = None" "call_timeout (consent_page_call l) = None"
  "call_timeout consent_call = None" "call_timeout (token_call c ru v) = None"
  "call_timeout (exchange_call bu t) = None"
  by (simp_all add: auth_call_def sign_in_call_def identifiers_call_def submit_call_def
      redirect_call_def consent_page_call_def consent_call_def session_call_def token_call_def
      exchange_call_def)

lemma no_timeout_steps:
  "no_timeout tr \<Longrightarrow> no_timeout (snd (step1_authorize env ru p tr))"
  "no_timeout tr \<Longrightarrow> no_timeout (snd (step2_sign_in env e pw tr))"
  "no_timeout tr \<Longrightarrow> no_timeout (snd (step3_submit env tr))"
  "no_timeout tr \<Longrightarrow> no_timeout (snd (step4_consent env rt tr))"
  "no_timeout tr \<Longrightarrow> no_timeout (snd (step5_code env pq rt tr))"
  "no_timeout tr \<Longrightarrow> no_timeout (snd (step6_token env ru v c tr))"
  "no_timeout tr \<Longrightarrow> no_timeout (snd (step7_exchange env bu t tr))"
  unfolding step_defs Let_def no_timeout_def
  by (auto simp: call_timeouts split: sum.splits option.splits)

lemma login_no_timeout:
  "no_timeout (snd (logto_login env parse_query sha256_of urandom base_url email password))"
  unfolding logto_login_def Let_def
  by (intro no_timeout_and_then no_timeout_steps) (simp_all add: no_timeout_def)

lemma example_run:
  "run_example example_responses =
     (Inr (JStr ''backend-jwt''),
      [example_auth_call, sign_in_call, example_identifiers_call, submit_call,
       redirect_call (JStr ''https://qa.id.nethesis.it/oidc/auth/abc''),
       redirect_call (JStr ''https://qa.id.nethesis.it/oidc/auth/abc''),
       example_token_call, example_exchange_call])"
  by (simp add: example_defs example_responses_def logto_login_def Let_def step_defs
      reading_defs ok_def)

text \<open>
  Claim C2 says that every request of the login sequence has a bounded timeout. The
  script gives none of them a \<open>timeout\<close> argument: in the example run below all eight
  calls are made without one.
\<close>

theorem bounded_timeout_counterexample:
  "map call_timeout (snd (run_example example_responses)) =
     [None, None, None, None, None, None, None, None]"
  unfolding example_run
  by (simp add: call_timeouts example_auth_call_def example_identifiers_call_def
      example_token_call_def example_exchange_call_def)

text \<open>
  Claim C2, amended. No call of the login sequence carries a timeout, in any run, and
  every run makes at least the authorization call.
\<close>

theorem login_calls_without_timeout:
  "list_all (\<lambda>c. call_timeout c = None)
     (snd (logto_login env parse_query sha256_of urandom base_url email password))
   \<and> prefix [auth_call (redirect_uri_of base_url) (pkce_setup sha256_of urandom)]
        (snd (logto_login env parse_query sha256_of urandom base_url email password))"
  using login_no_timeout[of env parse_query sha256_of urandom base_url email password]
    login_first_call[of base_url sha256_of urandom env parse_query email password]
  by (simp add: no_timeout_def)

subsection \<open>Failures of the flow\<close>

text \<open>
  Claim C3 says that a 422 response to the credentials PATCH always ends in the
  invalid-credentials error, with the body's \<open>message\<close> or the raw body. When the body
  of the 422 response is not JSON, \<open>r.json()\<close> raises while the message is being built
  and the run ends with that exception instead.
\<close>

theorem sign_in_422_counterexample:
  "status_code (responses_422_html ! 2) = 422 \<and>
   run_example responses_422_html =
     (Inl (Uncaught JSONDecodeError), [example_auth_call, sign_in_call, example_identifiers_call])"
  by (simp add: example_defs responses_422_html_def logto_login_def Let_def step_defs reading_defs)

text \<open>
  Claim C3, amended. When the credentials PATCH is answered with status 422, the run
  fails after exactly the three calls made so far; and when the body of that response
  is a JSON object, the failure is the invalid-credentials error with the object's
  \<open>message\<close>, or with the raw body when the object has no \<open>message\<close>.
\<close>

theorem sign_in_422:
  fixes env :: http_env and base_url email password sha256_of urandom
  defines "c_auth \<equiv> auth_call (redirect_uri_of base_url) (pkce_setup sha256_of urandom)"
    and "c_ident \<equiv> identifiers_call email password"
  assumes "env [c_auth] = Inr r_auth"
    and "env [c_auth, sign_in_call] = Inr r_put"
    and "env [c_auth, sign_in_call, c_ident] = Inr r_patch"
    and "status_code r_patch = 422"
  shows "\<exists>e. logto_login env parse_query sha256_of urandom base_url email password
             = (Inl e, [c_auth, sign_in_call, c_ident])
           \<and> (\<forall>kvs. body_json r_patch = Some (JObj kvs) \<longrightarrow>
                e = AuthenticationFailed
                      (case map_of kvs ''message'' of None \<Rightarrow> JStr (body_text r_patch) | Some m \<Rightarrow> m))"
  using assms(3-)
  unfolding c_auth_def c_ident_def logto_login_def Let_def step_defs
  by (auto simp: read_field_def response_json_def split: sum.splits option.splits json.splits)

theorem sign_in_422_witness:
  "run_example responses_422_json =
     (Inl (AuthenticationFailed (JStr ''Incorrect account or password.'')),
      [example_auth_call, sign_in_call, example_identifiers_call])"
  using sign_in_422[where env = "scripted responses_422_json" and base_url = example_base_url
      and sha256_of = example_digest and urandom = example_urandom
      and email = "''admin@example.com''" and password = "''s3cr3t''"
      and parse_query = example_parse_query
      and r_auth = "responses_422_json ! 0" and r_put = "responses_422_json ! 1"
      and r_patch = "responses_422_json ! 2"]
  by (simp add: example_defs responses_422_json_def)

text \<open>
  Claim C5 says that a final redirect whose \<open>Location\<close> has no \<open>code\<close> query parameter
  always ends in the no-authorization-code error. The script reads the parameters with
  \<open>urlparse\<close>, which raises ValueError on a \<open>Location\<close> it does not accept as a URL: the
  one of the run below has no \<open>code\<close> parameter, and the run ends with that exception
  instead.
\<close>

theorem final_redirect_without_code_counterexample:
  "map_of (headers (responses_bad_location ! 5)) ''Location''
     = Some ''https://[my.example/login-redirect?error=access_denied'' \<and>
   fst (run_example responses_bad_location) = Inl (Uncaught ValueError) \<and>
   map call_client (snd (run_example responses_bad_location))
     = [ViaSession, ViaSession, ViaSession, ViaSession, ViaSession, ViaSession] \<and>
   map call_method (snd (run_example responses_bad_location))
     = [GET, PUT, PATCH, POST, GET, GET] \<and>
   map call_url (snd (run_example responses_bad_location))
     = [JStr ''https://qa.id.nethesis.it/oidc/auth'',
        JStr ''https://qa.id.nethesis.it/api/interaction'',
        JStr ''https://qa.id.nethesis.it/api/interaction/identifiers'',
        JStr ''https://qa.id.nethesis.it/api/interaction/submit'',
        JStr ''https://qa.id.nethesis.it/oidc/auth/abc'',
        JStr ''https://qa.id.nethesis.it/oidc/auth/abc'']"
  by (simp add: example_defs responses_bad_location_def logto_login_def Let_def step_defs
      reading_defs ok_def auth_call_def sign_in_call_def identifiers_call_def submit_call_def
      redirect_call_def session_call_def LOGTO_ENDPOINT_def)

text \<open>
  Claim C5, amended. When the run reaches the final redirect fetch and the \<open>Location\<close>
  header of its response has no \<open>code\<close> query parameter (or there is no such header),
  the run fails and the redirect fetch is its last call: every call made is one of the
  session's, so neither the token endpoint nor the backend exchange, which are called
  outside the session, is called. When \<open>urlparse\<close> accepts the \<open>Location\<close> the failure is
  the no-authorization-code error; when it raises, the failure is that exception.
\<close>

theorem final_redirect_without_code:
  fixes env :: http_env and base_url email password :: string and sha256_of urandom
    and redirect_to consent_to :: json and r_interim r_final :: response
  defines "p \<equiv> pkce_setup sha256_of urandom"
    and "site \<equiv> rstrip (CHR ''/'') base_url"
  defines "c_auth \<equiv>
      \<lparr>call_client = ViaSession, call_method = GET,
       call_url = JStr ''https://qa.id.nethesis.it/oidc/auth'',
       call_params = 
         [(''client_id'', ''amz2744kof0iq3a6i7csu''),
          (''redirect_uri'', site @ ''/login-redirect''),
          (''response_type'', ''code''),
          (''scope'', ''openid profile email offline_access '' @
             ''urn:logto:scope:organizations urn:logto:scope:organization_roles''),
          (''state'', state p),
          (''code_challenge'', code_challenge p),
          (''code_challenge_method'', ''S256'')],
       call_payload = NoBody,
       call_headers = [], allow_redirects = False, call_timeout = None\<rparr>"
    and "c_put \<equiv>
      \<lparr>call_client = ViaSession, call_method = PUT,
       call_url = JStr ''https://qa.id.nethesis.it/api/interaction'',
       call_params = [],
       call_payload = JsonBody (JObj [(''event'', JStr ''SignIn'')]),
       call_headers = [], allow_redirects = True, call_timeout = None\<rparr>"
    and "c_ident \<equiv>
      \<lparr>call_client = ViaSession, call_method = PATCH,
       call_url = JStr ''https://qa.id.nethesis.it/api/interaction/identifiers'',
       call_params = [],
       call_payload = JsonBody (JObj [(''email'', JStr email), (''password'', JStr password)]),
       call_headers = [], allow_redirects = True, call_timeout = None\<rparr>"
    and "c_submit \<equiv>
      \<lparr>call_client = ViaSession, call_method = POST,
       call_url = JStr ''https://qa.id.nethesis.it/api/interaction/submit'',
       call_params = [],
       call_payload = NoBody,
       call_headers = [], allow_redirects = True, call_timeout = None\<rparr>"
    and "fetch \<equiv> \<lambda>u.
      \<lparr>call_client = ViaSession, call_method = GET,
       call_url = u,
       call_params = [],
       call_payload = NoBody,
       call_headers = [], allow_redirects = False, call_timeout = None\<rparr>"
    and "c_consent \<equiv>
      \<lparr>call_client = ViaSession, call_method = POST,
       call_url = JStr ''https://qa.id.nethesis.it/api/interaction/consent'',
       call_params = [],
       call_payload = NoBody,
       call_headers = [], allow_redirects = True, call_timeout = None\<rparr>"
    and "loc \<equiv> (case map_of (headers r_interim) ''Location'' of None \<Rightarrow> [] | Some l \<Rightarrow> l)"
  defines "interim \<equiv> [c_auth, c_put, c_ident, c_submit, fetch redirect_to]"
    and "c_page \<equiv> fetch (JStr (''https://qa.id.nethesis.it'' @ loc))"
  defines "pre \<equiv> interim @ (if sublist ''consent'' loc then [c_page, c_consent] else [])"
    and "target \<equiv> (if sublist ''consent'' loc then consent_to else redirect_to)"
    and "final_loc \<equiv>
      (case map_of (headers r_final) ''Location'' of None \<Rightarrow> [] | Some l \<Rightarrow> l)"
  assumes h:
    "env [c_auth] = Inr r_auth"
    "env [c_auth, c_put] = Inr r_put"
    "env [c_auth, c_put, c_ident] = Inr r_patch"
    "status_code r_patch < 400 \<or> 600 \<le> status_code r_patch"
    "env [c_auth, c_put, c_ident, c_submit] = Inr r_submit"
    "body_json r_submit = Some (JObj submit_body)"
    "map_of submit_body ''redirectTo'' = Some redirect_to"
    "truthy redirect_to"
    "env interim = Inr r_interim"
    "sublist ''consent'' loc \<Longrightarrow> env (interim @ [c_page]) = Inr r_page"
    "sublist ''consent'' loc \<Longrightarrow> env (interim @ [c_page, c_consent]) = Inr r_consent"
    "sublist ''consent'' loc \<Longrightarrow> body_json r_consent = Some (JObj consent_body)"
    "sublist ''consent'' loc \<Longrightarrow> map_of consent_body ''redirectTo'' = Some consent_to"
    "env (pre @ [fetch target]) = Inr r_final"
    "\<And>qs. parse_query final_loc = Inr qs \<Longrightarrow> map_of qs ''code'' = None"
  shows "\<exists>e. logto_login env parse_query sha256_of urandom base_url email password
               = (Inl e, pre @ [fetch target])
           \<and> list_all (\<lambda>c. call_client c = ViaSession) (pre @ [fetch target])
           \<and> (\<forall>qs. parse_query final_loc = Inr qs \<longrightarrow> e = NoAuthorizationCode final_loc)
           \<and> (\<forall>x. parse_query final_loc = Inl x \<longrightarrow> e = Uncaught x)"
proof -
  from h(4) have patch_ok: "ok r_patch" "status_code r_patch \<noteq> 422"
    by (auto simp: ok_def)
  note locals = p_def site_def c_auth_def c_put_def c_ident_def c_submit_def fetch_def c_consent_def
    loc_def interim_def c_page_def pre_def target_def
    final_loc_def
  note model = logto_login_def Let_def step_defs auth_call_def sign_in_call_def identifiers_call_def
    submit_call_def redirect_call_def consent_page_call_def consent_call_def token_call_def
    exchange_call_def session_call_def LOGTO_ENDPOINT_def LOGTO_APP_ID_def
    LOGTO_REDIRECT_URI_PATH_def redirect_uri_of_def backend_url_of_def header_get_def
    read_field_def read_token_def response_json_def first_code_def contains_sublist
  show ?thesis
  proof (cases "parse_query final_loc")
    case (Inl x)
    show ?thesis
    proof (cases "sublist ''consent'' loc")
      case True
      with h(1-14) patch_ok Inl show ?thesis
        unfolding locals by (simp add: model)
    next
      case False
      with h(1-14) patch_ok Inl show ?thesis
        unfolding locals by (simp add: model)
    qed
  next
    case (Inr qs)
    with h(15) have none: "map_of qs ''code'' = None" by simp
    show ?thesis
    proof (cases "sublist ''consent'' loc")
      case True
      with h(1-14) patch_ok Inr none show ?thesis
        unfolding locals by (simp add: model)
    next
      case False
      with h(1-14) patch_ok Inr none show ?thesis
        unfolding locals by (simp add: model)
    qed
  qed
qed

theorem final_redirect_without_code_witness:
  "\<exists>tr. run_example responses_no_code =
       (Inl (NoAuthorizationCode ''https://my.example/login-redirect?error=access_denied''), tr)
     \<and> map call_client tr =
         [ViaSession, ViaSession, ViaSession, ViaSession, ViaSession, ViaSession]
     \<and> map call_method tr = [GET, PUT, PATCH, POST, GET, GET]
     \<and> map call_url tr =
         [JStr ''https://qa.id.nethesis.it/oidc/auth'',
          JStr ''https://qa.id.nethesis.it/api/interaction'',
          JStr ''https://qa.id.nethesis.it/api/interaction/identifiers'',
          JStr ''https://qa.id.nethesis.it/api/interaction/submit'',
          JStr ''https://qa.id.nethesis.it/oidc/auth/abc'',
          JStr ''https://qa.id.nethesis.it/oidc/auth/abc'']"
  using final_redirect_without_code[where env = "scripted responses_no_code"
      and base_url = example_base_url
      and sha256_of = example_digest and urandom = example_urandom
      and email = "''admin@example.com''" and password = "''s3cr3t''"
      and parse_query = example_parse_query
      and r_auth = "responses_no_code ! 0" and r_put = "responses_no_code ! 1"
      and r_patch = "responses_no_code ! 2" and r_submit = "responses_no_code ! 3"
      and submit_body = "[(''redirectTo'', JStr ''https://qa.id.nethesis.it/oidc/auth/abc'')]"
      and redirect_to = "JStr ''https://qa.id.nethesis.it/oidc/auth/abc''"
      and r_interim = "responses_no_code ! 4"
      and r_final = "responses_no_code ! 5"]
  by (auto simp add: example_defs responses_no_code_def example_parse_query_def rstrip_def
      example_base_url_def contains_sublist[symmetric])




text \<open>
  Claim C7 says that a submit response whose body has no \<open>redirectTo\<close> field always ends
  in the unexpected-response error. When that body is not JSON at all, \<open>r4.json()\<close>
  raises and the run ends with that exception instead.
\<close>

theorem submit_without_redirect_counterexample:
  "body_json (responses_submit_html ! 3) = None \<and>
   run_example responses_submit_html =
     (Inl (Uncaught JSONDecodeError),
      [example_auth_call, sign_in_call, example_identifiers_call, submit_call])"
  by (simp add: example_defs responses_submit_html_def logto_login_def Let_def step_defs
      reading_defs ok_def)

text \<open>
  Claim C7, amended. When the body of the submit response is a JSON object without a
  \<open>redirectTo\<close> field, the run fails with the unexpected-response error, and the submit
  is its last call.
\<close>

theorem submit_without_redirect:
  fixes env :: http_env and base_url email password sha256_of urandom
  defines "c_auth \<equiv> auth_call (redirect_uri_of base_url) (pkce_setup sha256_of urandom)"
    and "c_ident \<equiv> identifiers_call email password"
  assumes "env [c_auth] = Inr r_auth"
    and "env [c_auth, sign_in_call] = Inr r_put"
    and "env [c_auth, sign_in_call, c_ident] = Inr r_patch" and "ok r_patch"
    and "env [c_auth, sign_in_call, c_ident, submit_call] = Inr r_submit"
    and "body_json r_submit = Some (JObj kvs)" and "map_of kvs ''redirectTo'' = None"
  shows "logto_login env parse_query sha256_of urandom base_url email password
           = (Inl (UnexpectedSignInResponse (body_text r_submit)), [c_auth, sign_in_call, c_ident, submit_call])"
  using assms(3-)
  unfolding c_auth_def c_ident_def logto_login_def Let_def step_defs
  by (simp add: read_field_def response_json_def ok_not_422)

theorem submit_without_redirect_witness:
  "run_example responses_no_redirect =
     (Inl (UnexpectedSignInResponse ''{}''),
      [example_auth_call, sign_in_call, example_identifiers_call, submit_call])"
  using submit_without_redirect[where env = "scripted responses_no_redirect"
      and base_url = example_base_url
      and sha256_of = example_digest and urandom = example_urandom
      and email = "''admin@example.com''" and password = "''s3cr3t''"
      and parse_query = example_parse_query
      and r_auth = "responses_no_redirect ! 0" and r_put = "responses_no_redirect ! 1"
      and r_patch = "responses_no_redirect ! 2" and r_submit = "responses_no_redirect ! 3"
      and kvs = "[]"]
  by (simp add: example_defs responses_no_redirect_def ok_def)

end
